theory Spec2Isabelle
  imports Main "HOL-Library.Sublist" "HOL-Library.AList" "HOL-Library.List_Lexorder"
begin

section \<open>Python values\<close>

text \<open>
  A Python \<^verbatim>\<open>str\<close> is a sequence of Unicode code points (0 .. 0x10FFFF, lone
  surrogates included), so it is a list of naturals; \<open>lit\<close> turns a literal of the
  source into such a list. \<^verbatim>\<open>len\<close>, slicing and \<^verbatim>\<open>startswith\<close> count code points.
\<close>

type_synonym pystr = "nat list"

definition lit :: "string \<Rightarrow> pystr" where
  "lit s = map of_char s"

text \<open>
  Parsed JSON, and the values of a request payload. The type parameter \<open>'f\<close> is the type
  of Python floats, which the model never computes with.
\<close>

datatype 'f json =
    JNull
  | JBool bool
  | JInt int
  | JFloat 'f
  | JStr pystr
  | JArr "'f json list"
  | JObj "(pystr \<times> 'f json) list"

text \<open>\<^verbatim>\<open>d.get(k)\<close> and \<^verbatim>\<open>d[k] = v\<close> on a dict that keeps insertion order.\<close>

definition dict_get :: "('k \<times> 'v) list \<Rightarrow> 'k \<Rightarrow> 'v option" where
  "dict_get d k = map_of d k"

definition dict_set :: "'k \<Rightarrow> 'v \<Rightarrow> ('k \<times> 'v) list \<Rightarrow> ('k \<times> 'v) list" where
  "dict_set k v d = AList.update k v d"

text \<open>\<^verbatim>\<open>d.update(other)\<close>.\<close>

definition dict_update :: "('k \<times> 'v) list \<Rightarrow> ('k \<times> 'v) list \<Rightarrow> ('k \<times> 'v) list" where
  "dict_update other d = fold (\<lambda>(k, v). dict_set k v) other d"

text \<open>\<^verbatim>\<open>sep.join(parts)\<close>.\<close>

fun join :: "'a list \<Rightarrow> 'a list list \<Rightarrow> 'a list" where
  "join sep [] = []"
| "join sep [x] = x"
| "join sep (x # y # ys) = x @ sep @ join sep (y # ys)"

text \<open>\<^verbatim>\<open>x or default\<close> on an optional string and on an optional int: \<^verbatim>\<open>None\<close>, the
  empty string and 0 are falsy.\<close>

definition str_or :: "pystr option \<Rightarrow> pystr \<Rightarrow> pystr" where
  "str_or x d = (case x of None \<Rightarrow> d | Some s \<Rightarrow> if s = [] then d else s)"

definition int_or :: "int option \<Rightarrow> int \<Rightarrow> int" where
  "int_or x d = (case x of None \<Rightarrow> d | Some n \<Rightarrow> if n = 0 then d else n)"

text \<open>\<^verbatim>\<open>str.isspace\<close> of one code point, \<^verbatim>\<open>str.strip()\<close> and \<^verbatim>\<open>str.split()\<close>.\<close>

definition isspace :: "nat \<Rightarrow> bool" where
  "isspace c \<longleftrightarrow>
     (9 \<le> c \<and> c \<le> 13) \<or> (28 \<le> c \<and> c \<le> 32) \<or> c = 133 \<or> c = 160 \<or> c = 5760
     \<or> (8192 \<le> c \<and> c \<le> 8202) \<or> c = 8232 \<or> c = 8233 \<or> c = 8239 \<or> c = 8287 \<or> c = 12288"

definition strip :: "pystr \<Rightarrow> pystr" where
  "strip s = rev (dropWhile isspace (rev (dropWhile isspace s)))"

fun split_words :: "pystr \<Rightarrow> pystr \<Rightarrow> pystr list" where
  "split_words w [] = (if w = [] then [] else [w])"
| "split_words w (c # cs) =
     (if isspace c then (if w = [] then split_words [] cs else w # split_words [] cs)
      else split_words (w @ [c]) cs)"

definition split :: "pystr \<Rightarrow> pystr list" where
  "split s = split_words [] s"

section \<open>Data model (types.py)\<close>

datatype role = System | User | Assistant

definition role_str :: "role \<Rightarrow> pystr" where
  "role_str r = (case r of System \<Rightarrow> lit ''system'' | User \<Rightarrow> lit ''user''
     | Assistant \<Rightarrow> lit ''assistant'')"

record Message =
  role :: role
  content :: pystr

record Choice =
  content :: pystr
  finish_reason :: "pystr option"

record Usage =
  prompt_tokens :: int
  completion_tokens :: int
  total_tokens :: int

text \<open>The field \<^verbatim>\<open>text\<close> of a Response is \<open>choices\<close> here, \<^verbatim>\<open>done\<close> of a StreamChunk is
  \<open>is_done\<close>: both names are keywords of the proof language.\<close>

record Response =
  choices :: "Choice list"
  usage :: "Usage option"
  provider :: pystr
  model :: pystr
  cached :: bool

record StreamChunk =
  content :: pystr
  finish_reason :: "pystr option"
  is_done :: bool

record ProviderConfig =
  api_key :: "pystr option"
  api_base :: "pystr option"
  organization :: "pystr option"
  timeout :: int
  max_retries :: int

record 'f GenerationConfig =
  model :: "pystr option"
  max_tokens :: "int option"
  temperature :: "'f option"
  top_p :: "'f option"
  stream :: bool
  use_cache :: bool

record CacheConfig =
  enabled :: bool
  redis_url :: "pystr option"
  ttl :: int
  key_prefix :: pystr

text \<open>The defaults of the fields: \<^verbatim>\<open>CacheConfig()\<close> and \<^verbatim>\<open>ProviderConfig()\<close>.\<close>

definition CacheConfig_default :: CacheConfig where
  "CacheConfig_default = \<lparr> enabled = True, redis_url = None, ttl = 3600,
                             key_prefix = lit ''llmx:'' \<rparr>"

definition ProviderConfig_default :: ProviderConfig where
  "ProviderConfig_default =
     \<lparr> api_key = None, api_base = None, organization = None, timeout = 30, max_retries = 3 \<rparr>"

section \<open>Exceptions (exceptions.py, and the Python exceptions the code lets through)\<close>

text \<open>
  \<open>ProviderError message provider status_code\<close>; an AuthenticationError carries status 401
  and a RateLimitError status 429 by their constructors. The message of a ProviderError is
  whatever the backend's error body held, so it is a JSON value. \<open>HTTPRequestError\<close> is a
  transport failure of httpx, \<open>PythonError\<close> any other exception, by its class name.
\<close>

datatype 'f error =
    ProviderError "'f json" pystr nat
  | AuthenticationError pystr pystr
  | RateLimitError pystr pystr
  | ValidationError pystr
  | ConfigurationError pystr
  | CacheError pystr
  | StreamingError pystr
  | HTTPRequestError pystr
  | PythonError pystr

section \<open>HTTP and the retry decorator\<close>

text \<open>
  What one \<^verbatim>\<open>client.post\<close> followed by \<^verbatim>\<open>raise_for_status()\<close> gives: a success with
  the body as \<^verbatim>\<open>response.json()\<close> parses it (\<open>None\<close>: not JSON), an \<^verbatim>\<open>HTTPStatusError\<close> with
  the status code, the parsed body and \<^verbatim>\<open>str(error)\<close>, or a transport error. A backend
  answers the \<open>n\<close>-th request (\<open>n\<close> from 1) to a URL with a payload.
\<close>

datatype 'f http_outcome =
    Success "'f json option"
  | HTTPStatusError nat "'f json option" pystr
  | RequestError pystr

type_synonym 'f backend = "nat \<Rightarrow> pystr \<Rightarrow> 'f json \<Rightarrow> 'f http_outcome"

text \<open>
  \<^verbatim>\<open>@retry(stop=stop_after_attempt(3), wait=wait_exponential(...), reraise=True)\<close>: the
  decorator is given no \<^verbatim>\<open>retry=\<close> predicate, and tenacity's default retries on every
  exception. The wrapped function is called until it returns or the attempt number
  reaches the ceiling, and then the last exception is raised again. The result is paired
  with the number of calls made. The waiting between attempts is not modelled.
\<close>

function retry_loop :: "nat \<Rightarrow> (nat \<Rightarrow> 'e + 'a) \<Rightarrow> nat \<Rightarrow> ('e + 'a) \<times> nat" where
  "retry_loop max_attempt_number fn attempt_number =
     (case fn attempt_number of
        Inr r \<Rightarrow> (Inr r, attempt_number)
      | Inl e \<Rightarrow>
          if attempt_number \<ge> max_attempt_number then (Inl e, attempt_number)
          else retry_loop max_attempt_number fn (Suc attempt_number))"
  by pat_completeness auto
termination
  by (relation "measure (\<lambda>(m, fn, n). m - n)") auto

definition retry :: "(nat \<Rightarrow> 'e + 'a) \<Rightarrow> ('e + 'a) \<times> nat" where
  "retry fn = retry_loop 3 fn 1"

section \<open>Base provider (providers/base.py)\<close>

text \<open>\<^verbatim>\<open>_validate_model(model)\<close>: \<open>None\<close> when the model is supported, else the error raised.\<close>

definition validate_model :: "pystr \<Rightarrow> pystr list \<Rightarrow> pystr \<Rightarrow> 'f error option" where
  "validate_model class_name supported_models mdl =
     (if mdl \<notin> set supported_models
      then Some (ConfigurationError
             (lit ''Model '' @ [39] @ mdl @ [39] @ lit '' not supported by '' @ class_name
                @ lit ''. Supported models: '' @ join (lit '', '') supported_models))
      else None)"

definition prepare_messages :: "Message list \<Rightarrow> 'f json list" where
  "prepare_messages messages =
     map (\<lambda>msg. JObj [(lit ''role'', JStr (role_str (role msg))),
                        (lit ''content'', JStr (Message.content msg))]) messages"

text \<open>
  The three optional parameters of a payload, under the adapter's names for the token
  limit and for nucleus sampling: \<^verbatim>\<open>if config.max_tokens:\<close> leaves out \<^verbatim>\<open>None\<close> and 0,
  \<^verbatim>\<open>is not None\<close> only \<^verbatim>\<open>None\<close>.
\<close>

definition set_if_truthy ::
  "pystr \<Rightarrow> int option \<Rightarrow> (pystr \<times> 'f json) list \<Rightarrow> (pystr \<times> 'f json) list" where
  "set_if_truthy k x d =
     (case x of Some n \<Rightarrow> if n \<noteq> 0 then dict_set k (JInt n) d else d | None \<Rightarrow> d)"

definition set_if_not_none ::
  "pystr \<Rightarrow> 'f option \<Rightarrow> (pystr \<times> 'f json) list \<Rightarrow> (pystr \<times> 'f json) list" where
  "set_if_not_none k x d = (case x of Some v \<Rightarrow> dict_set k (JFloat v) d | None \<Rightarrow> d)"

text \<open>
  The end of every adapter's \<^verbatim>\<open>generate\<close>: post, \<^verbatim>\<open>raise_for_status\<close>, parse; an
  \<^verbatim>\<open>HTTPStatusError\<close> goes to the adapter's \<^verbatim>\<open>_handle_http_error\<close>, which always raises,
  and every other exception passes through.
\<close>

definition post_and_parse ::
  "'f http_outcome \<Rightarrow> ('f json \<Rightarrow> 'f error + Response)
     \<Rightarrow> (nat \<Rightarrow> 'f json option \<Rightarrow> pystr \<Rightarrow> 'f error) \<Rightarrow> 'f error + Response" where
  "post_and_parse outcome parse handle_http_error =
     (case outcome of
        Success body \<Rightarrow>
          (case body of
             Some data \<Rightarrow> parse data
           | None \<Rightarrow> Inl (PythonError (lit ''JSONDecodeError'')))
      | HTTPStatusError status_code body str_error \<Rightarrow>
          Inl (handle_http_error status_code body str_error)
      | RequestError m \<Rightarrow> Inl (HTTPRequestError m))"

text \<open>
  The error message of the OpenAI and Claude adapters:
  \<^verbatim>\<open>error.response.json().get("error", {}).get("message", str(error))\<close>, and \<^verbatim>\<open>str(error)\<close>
  when any of that raises.
\<close>

definition nested_error_message :: "'f json option \<Rightarrow> pystr \<Rightarrow> 'f json" where
  "nested_error_message body str_error =
     (case body of
        Some (JObj error_data) \<Rightarrow>
          (case dict_get error_data (lit ''error'') of
             None \<Rightarrow> JStr str_error
           | Some (JObj err) \<Rightarrow>
               (case dict_get err (lit ''message'') of Some m \<Rightarrow> m | None \<Rightarrow> JStr str_error)
           | Some _ \<Rightarrow> JStr str_error)
      | _ \<Rightarrow> JStr str_error)"

section \<open>OpenAI adapter (providers/openai.py)\<close>

definition openai_default_model :: pystr where
  "openai_default_model = lit ''gpt-3.5-turbo''"

definition openai_supported_models :: "pystr list" where
  "openai_supported_models =
     [lit ''gpt-3.5-turbo'', lit ''gpt-3.5-turbo-16k'', lit ''gpt-4'', lit ''gpt-4-32k'',
      lit ''gpt-4-turbo'', lit ''gpt-4o'', lit ''gpt-4o-mini'']"

definition openai_handle_http_error :: "nat \<Rightarrow> 'f json option \<Rightarrow> pystr \<Rightarrow> 'f error" where
  "openai_handle_http_error status_code body str_error =
     (if status_code = 401 then AuthenticationError (lit ''Invalid API key'') (lit ''openai'')
      else if status_code = 429
      then RateLimitError (lit ''Rate limit exceeded'') (lit ''openai'')
      else ProviderError (nested_error_message body str_error) (lit ''openai'') status_code)"

definition openai_payload ::
  "pystr \<Rightarrow> Message list \<Rightarrow> 'f GenerationConfig \<Rightarrow> (pystr \<times> 'f json) list
     \<Rightarrow> (pystr \<times> 'f json) list" where
  "openai_payload mdl messages config kwargs =
     dict_update kwargs
       (set_if_not_none (lit ''top_p'') (top_p config)
         (set_if_not_none (lit ''temperature'') (temperature config)
           (set_if_truthy (lit ''max_tokens'') (max_tokens config)
             [(lit ''model'', JStr mdl),
              (lit ''messages'', JArr (prepare_messages messages))])))"

text \<open>
  The body of \<^verbatim>\<open>generate\<close>, one attempt. \<open>parse\<close> stands for \<^verbatim>\<open>_parse_response\<close>, which
  no claim here is about.
\<close>

definition openai_generate_once ::
  "('f json \<Rightarrow> pystr \<Rightarrow> 'f error + Response) \<Rightarrow> (pystr \<Rightarrow> 'f json \<Rightarrow> 'f http_outcome)
     \<Rightarrow> Message list \<Rightarrow> 'f GenerationConfig \<Rightarrow> (pystr \<times> 'f json) list
     \<Rightarrow> 'f error + Response" where
  "openai_generate_once parse post messages config kwargs =
     (let mdl = str_or (GenerationConfig.model config) openai_default_model
      in case validate_model (lit ''OpenAIProvider'') openai_supported_models mdl of
           Some e \<Rightarrow> Inl e
         | None \<Rightarrow>
             post_and_parse
               (post (lit ''/chat/completions'') (JObj (openai_payload mdl messages config kwargs)))
               (\<lambda>data. parse data mdl) openai_handle_http_error)"

definition openai_generate ::
  "('f json \<Rightarrow> pystr \<Rightarrow> 'f error + Response) \<Rightarrow> 'f backend
     \<Rightarrow> Message list \<Rightarrow> 'f GenerationConfig \<Rightarrow> (pystr \<times> 'f json) list
     \<Rightarrow> ('f error + Response) \<times> nat" where
  "openai_generate parse backend messages config kwargs =
     retry (\<lambda>n. openai_generate_once parse (backend n) messages config kwargs)"

section \<open>Claude adapter (providers/claude.py)\<close>

definition claude_default_model :: pystr where
  "claude_default_model = lit ''claude-3-haiku-20240307''"

definition claude_supported_models :: "pystr list" where
  "claude_supported_models =
     [lit ''claude-3-haiku-20240307'', lit ''claude-3-sonnet-20240229'',
      lit ''claude-3-opus-20240229'', lit ''claude-3-5-sonnet-20241022'',
      lit ''claude-2.1'', lit ''claude-2.0'', lit ''claude-instant-1.2'']"

definition claude_handle_http_error :: "nat \<Rightarrow> 'f json option \<Rightarrow> pystr \<Rightarrow> 'f error" where
  "claude_handle_http_error status_code body str_error =
     (if status_code = 401 then AuthenticationError (lit ''Invalid API key'') (lit ''claude'')
      else if status_code = 429
      then RateLimitError (lit ''Rate limit exceeded'') (lit ''claude'')
      else ProviderError (nested_error_message body str_error) (lit ''claude'') status_code)"

text \<open>
  The loop that converts the messages: \<open>system_message\<close> starts as \<^verbatim>\<open>None\<close> and
  \<open>claude_messages\<close> as the empty list.
\<close>

fun claude_convert ::
  "Message list \<Rightarrow> pystr option \<Rightarrow> 'f json list \<Rightarrow> pystr option \<times> 'f json list" where
  "claude_convert [] system_message claude_messages = (system_message, claude_messages)"
| "claude_convert (msg # msgs) system_message claude_messages =
     (if role msg = System
      then claude_convert msgs (Some (Message.content msg)) claude_messages
      else claude_convert msgs system_message
             (claude_messages @ [JObj [(lit ''role'', JStr (role_str (role msg))),
                                        (lit ''content'', JStr (Message.content msg))]]))"

definition claude_payload ::
  "pystr \<Rightarrow> Message list \<Rightarrow> 'f GenerationConfig \<Rightarrow> (pystr \<times> 'f json) list
     \<Rightarrow> (pystr \<times> 'f json) list" where
  "claude_payload mdl messages config kwargs =
     (case claude_convert messages None [] of
        (system_message, claude_messages) \<Rightarrow>
          dict_update kwargs
            (set_if_not_none (lit ''top_p'') (top_p config)
              (set_if_not_none (lit ''temperature'') (temperature config)
                ((case system_message of
                    Some s \<Rightarrow> if s \<noteq> [] then dict_set (lit ''system'') (JStr s) else id
                  | None \<Rightarrow> id)
                  [(lit ''model'', JStr mdl),
                   (lit ''messages'', JArr claude_messages),
                   (lit ''max_tokens'', JInt (int_or (max_tokens config) 1024))]))))"

definition claude_generate_once ::
  "('f json \<Rightarrow> pystr \<Rightarrow> 'f error + Response) \<Rightarrow> (pystr \<Rightarrow> 'f json \<Rightarrow> 'f http_outcome)
     \<Rightarrow> Message list \<Rightarrow> 'f GenerationConfig \<Rightarrow> (pystr \<times> 'f json) list
     \<Rightarrow> 'f error + Response" where
  "claude_generate_once parse post messages config kwargs =
     (let mdl = str_or (GenerationConfig.model config) claude_default_model
      in case validate_model (lit ''ClaudeProvider'') claude_supported_models mdl of
           Some e \<Rightarrow> Inl e
         | None \<Rightarrow>
             post_and_parse
               (post (lit ''/messages'') (JObj (claude_payload mdl messages config kwargs)))
               (\<lambda>data. parse data mdl) claude_handle_http_error)"

definition claude_generate ::
  "('f json \<Rightarrow> pystr \<Rightarrow> 'f error + Response) \<Rightarrow> 'f backend
     \<Rightarrow> Message list \<Rightarrow> 'f GenerationConfig \<Rightarrow> (pystr \<times> 'f json) list
     \<Rightarrow> ('f error + Response) \<times> nat" where
  "claude_generate parse backend messages config kwargs =
     retry (\<lambda>n. claude_generate_once parse (backend n) messages config kwargs)"

section \<open>Cohere adapter (providers/cohere.py)\<close>

definition cohere_default_model :: pystr where
  "cohere_default_model = lit ''command''"

definition cohere_supported_models :: "pystr list" where
  "cohere_supported_models =
     [lit ''command'', lit ''command-light'', lit ''command-nightly'', lit ''command-r'',
      lit ''command-r-plus'']"

definition cohere_handle_http_error :: "nat \<Rightarrow> 'f json option \<Rightarrow> pystr \<Rightarrow> 'f error" where
  "cohere_handle_http_error status_code body str_error =
     (if status_code = 401 then AuthenticationError (lit ''Invalid API key'') (lit ''cohere'')
      else if status_code = 429
      then RateLimitError (lit ''Rate limit exceeded'') (lit ''cohere'')
      else ProviderError
             (case body of
                Some (JObj error_data) \<Rightarrow>
                  (case dict_get error_data (lit ''message'') of
                     Some m \<Rightarrow> m | None \<Rightarrow> JStr str_error)
              | _ \<Rightarrow> JStr str_error)
             (lit ''cohere'') status_code)"

definition cohere_part :: "Message \<Rightarrow> pystr" where
  "cohere_part msg = (case role msg of
      System \<Rightarrow> lit ''System: '' @ Message.content msg
    | User \<Rightarrow> lit ''User: '' @ Message.content msg
    | Assistant \<Rightarrow> lit ''Assistant: '' @ Message.content msg)"

definition convert_messages_to_cohere :: "Message list \<Rightarrow> pystr" where
  "convert_messages_to_cohere messages = join [10] (map cohere_part messages)"

definition cohere_payload ::
  "pystr \<Rightarrow> Message list \<Rightarrow> 'f GenerationConfig \<Rightarrow> (pystr \<times> 'f json) list
     \<Rightarrow> (pystr \<times> 'f json) list" where
  "cohere_payload mdl messages config kwargs =
     dict_update kwargs
       (set_if_not_none (lit ''p'') (top_p config)
         (set_if_not_none (lit ''temperature'') (temperature config)
           (set_if_truthy (lit ''max_tokens'') (max_tokens config)
             [(lit ''model'', JStr mdl),
              (lit ''message'', JStr (convert_messages_to_cohere messages))])))"

definition cohere_generate_once ::
  "('f json \<Rightarrow> pystr \<Rightarrow> 'f error + Response) \<Rightarrow> (pystr \<Rightarrow> 'f json \<Rightarrow> 'f http_outcome)
     \<Rightarrow> Message list \<Rightarrow> 'f GenerationConfig \<Rightarrow> (pystr \<times> 'f json) list
     \<Rightarrow> 'f error + Response" where
  "cohere_generate_once parse post messages config kwargs =
     (let mdl = str_or (GenerationConfig.model config) cohere_default_model
      in case validate_model (lit ''CohereProvider'') cohere_supported_models mdl of
           Some e \<Rightarrow> Inl e
         | None \<Rightarrow>
             post_and_parse
               (post (lit ''/chat'') (JObj (cohere_payload mdl messages config kwargs)))
               (\<lambda>data. parse data mdl) cohere_handle_http_error)"

definition cohere_generate ::
  "('f json \<Rightarrow> pystr \<Rightarrow> 'f error + Response) \<Rightarrow> 'f backend
     \<Rightarrow> Message list \<Rightarrow> 'f GenerationConfig \<Rightarrow> (pystr \<times> 'f json) list
     \<Rightarrow> ('f error + Response) \<times> nat" where
  "cohere_generate parse backend messages config kwargs =
     retry (\<lambda>n. cohere_generate_once parse (backend n) messages config kwargs)"

section \<open>HuggingFace adapter (providers/huggingface.py)\<close>

definition hf_default_model :: pystr where
  "hf_default_model = lit ''microsoft/DialoGPT-medium''"

definition hf_base_url :: "ProviderConfig \<Rightarrow> pystr" where
  "hf_base_url cfg = str_or (api_base cfg) (lit ''https://api-inference.huggingface.co/models'')"

definition hf_part :: "Message \<Rightarrow> pystr" where
  "hf_part msg = (case role msg of
      System \<Rightarrow> lit ''System: '' @ Message.content msg
    | User \<Rightarrow> lit ''Human: '' @ Message.content msg
    | Assistant \<Rightarrow> lit ''Assistant: '' @ Message.content msg)"

definition convert_messages_to_hf :: "Message list \<Rightarrow> pystr" where
  "convert_messages_to_hf messages =
     (let parts = map hf_part messages;
          parts = (if parts = [] \<or> \<not> prefix (lit ''Assistant:'') (last parts)
                   then parts @ [lit ''Assistant:''] else parts)
      in join [10] parts)"

text \<open>
  \<^verbatim>\<open>_parse_response(data, model, input_text)\<close>. \<open>py_str\<close> is Python's \<^verbatim>\<open>str()\<close> of a
  parsed JSON value. A \<^verbatim>\<open>generated_text\<close> that is not a string has no \<^verbatim>\<open>startswith\<close> in the
  list format, and is refused as the \<^verbatim>\<open>content\<close> of a Choice in the dict format.
\<close>

definition hf_content :: "('f json \<Rightarrow> pystr) \<Rightarrow> 'f json \<Rightarrow> pystr \<Rightarrow> 'f error + pystr" where
  "hf_content py_str data input_text =
     (case data of
        JArr (result # rest) \<Rightarrow>
          (case result of
             JObj kvs \<Rightarrow>
               (case dict_get kvs (lit ''generated_text'') of
                  Some generated_text \<Rightarrow>
                    (case generated_text of
                       JStr g \<Rightarrow>
                         if prefix input_text g
                         then Inr (strip (drop (length input_text) g))
                         else Inr g
                     | _ \<Rightarrow> Inl (PythonError (lit ''AttributeError'')))
                | None \<Rightarrow> Inr (py_str result))
           | _ \<Rightarrow> Inr (py_str result))
      | JObj kvs \<Rightarrow>
          (case dict_get kvs (lit ''generated_text'') of
             Some (JStr g) \<Rightarrow> Inr g
           | Some _ \<Rightarrow> Inl (PythonError (lit ''pydantic.ValidationError''))
           | None \<Rightarrow> Inr (py_str data))
      | _ \<Rightarrow> Inr (py_str data))"

definition hf_parse_response ::
  "('f json \<Rightarrow> pystr) \<Rightarrow> 'f json \<Rightarrow> pystr \<Rightarrow> pystr \<Rightarrow> 'f error + Response" where
  "hf_parse_response py_str data mdl input_text =
     (case hf_content py_str data input_text of
        Inl e \<Rightarrow> Inl e
      | Inr c \<Rightarrow>
          Inr \<lparr> choices = [\<lparr> Choice.content = c, finish_reason = Some (lit ''stop'') \<rparr>],
                usage = Some \<lparr> prompt_tokens = int (length (split input_text)),
                               completion_tokens = int (length (split c)),
                               total_tokens = int (length (split input_text))
                                            + int (length (split c)) \<rparr>,
                provider = lit ''huggingface'',
                Response.model = mdl,
                cached = False \<rparr>)"

definition hf_handle_http_error :: "nat \<Rightarrow> 'f json option \<Rightarrow> pystr \<Rightarrow> 'f error" where
  "hf_handle_http_error status_code body str_error =
     (if status_code = 401
      then AuthenticationError (lit ''Invalid HuggingFace token'') (lit ''huggingface'')
      else if status_code = 429
      then RateLimitError (lit ''Rate limit exceeded'') (lit ''huggingface'')
      else if status_code = 503
      then ProviderError (JStr (lit ''Model is currently loading, please try again later''))
             (lit ''huggingface'') status_code
      else ProviderError
             (case body of
                Some (JObj error_data) \<Rightarrow>
                  (case dict_get error_data (lit ''error'') of
                     Some m \<Rightarrow> m | None \<Rightarrow> JStr str_error)
              | _ \<Rightarrow> JStr str_error)
             (lit ''huggingface'') status_code)"

definition hf_payload ::
  "Message list \<Rightarrow> 'f GenerationConfig \<Rightarrow> (pystr \<times> 'f json) list
     \<Rightarrow> (pystr \<times> 'f json) list" where
  "hf_payload messages config kwargs =
     [(lit ''inputs'', JStr (convert_messages_to_hf messages)),
      (lit ''parameters'',
         JObj (dict_update kwargs
                (set_if_not_none (lit ''top_p'') (top_p config)
                  (set_if_not_none (lit ''temperature'') (temperature config)
                    (set_if_truthy (lit ''max_new_tokens'') (max_tokens config) [])))))]"

text \<open>The body of \<^verbatim>\<open>generate\<close>, one attempt; no model is refused.\<close>

definition hf_generate_once ::
  "('f json \<Rightarrow> pystr) \<Rightarrow> (pystr \<Rightarrow> 'f json \<Rightarrow> 'f http_outcome) \<Rightarrow> ProviderConfig
     \<Rightarrow> Message list \<Rightarrow> 'f GenerationConfig \<Rightarrow> (pystr \<times> 'f json) list
     \<Rightarrow> 'f error + Response" where
  "hf_generate_once py_str post pconfig messages config kwargs =
     (let mdl = str_or (GenerationConfig.model config) hf_default_model;
          input_text = convert_messages_to_hf messages;
          base_url = hf_base_url pconfig;
          url = (if \<not> suffix mdl base_url then base_url @ lit ''/'' @ mdl else base_url)
      in post_and_parse (post url (JObj (hf_payload messages config kwargs)))
           (\<lambda>data. hf_parse_response py_str data mdl input_text) hf_handle_http_error)"

definition hf_generate ::
  "('f json \<Rightarrow> pystr) \<Rightarrow> 'f backend \<Rightarrow> ProviderConfig
     \<Rightarrow> Message list \<Rightarrow> 'f GenerationConfig \<Rightarrow> (pystr \<times> 'f json) list
     \<Rightarrow> ('f error + Response) \<times> nat" where
  "hf_generate py_str backend pconfig messages config kwargs =
     retry (\<lambda>n. hf_generate_once py_str (backend n) pconfig messages config kwargs)"

text \<open>
  A generator, by what consuming it to the end gives: the chunks it yields, in order, and
  the exception that ends it, if one does.
\<close>

record 'f stream_run =
  emitted :: "StreamChunk list"
  raised :: "'f error option"

definition chunk_size :: nat where
  "chunk_size = 10"

text \<open>The loop \<^verbatim>\<open>for i in range(0, len(content), chunk_size)\<close> of the simulated stream.\<close>

function hf_chunks :: "nat \<Rightarrow> pystr \<Rightarrow> StreamChunk list" where
  "hf_chunks i s =
     (if i < length s
      then (let chunk = take chunk_size (drop i s);
                is_last = (i + chunk_size \<ge> length s)
            in \<lparr> StreamChunk.content = chunk,
                 finish_reason = (if is_last then Some (lit ''stop'') else None),
                 is_done = is_last \<rparr>)
           # hf_chunks (i + chunk_size) s
      else [])"
  by pat_completeness auto
termination
  by (relation "measure (\<lambda>(i, s). length s - i)") (auto simp: chunk_size_def)

definition hf_generate_stream ::
  "('f json \<Rightarrow> pystr) \<Rightarrow> 'f backend \<Rightarrow> ProviderConfig
     \<Rightarrow> Message list \<Rightarrow> 'f GenerationConfig \<Rightarrow> (pystr \<times> 'f json) list
     \<Rightarrow> 'f stream_run" where
  "hf_generate_stream py_str backend pconfig messages config kwargs =
     (case fst (hf_generate py_str backend pconfig messages config kwargs) of
        Inl e \<Rightarrow> \<lparr> emitted = [], raised = Some e \<rparr>
      | Inr response \<Rightarrow>
          (case choices response of
             [] \<Rightarrow> \<lparr> emitted = [], raised = Some (PythonError (lit ''IndexError'')) \<rparr>
           | c # cs \<Rightarrow> \<lparr> emitted = hf_chunks 0 (Choice.content c), raised = None \<rparr>))"


section \<open>Provider registry (providers/__init__.py)\<close>

datatype provider_class =
  OpenAIProvider | ClaudeProvider | GrokProvider | CohereProvider | HuggingFaceProvider

definition PROVIDERS :: "(pystr \<times> provider_class) list" where
  "PROVIDERS =
     [(lit ''openai'', OpenAIProvider),
      (lit ''azure'', OpenAIProvider),
      (lit ''claude'', ClaudeProvider),
      (lit ''anthropic'', ClaudeProvider),
      (lit ''grok'', GrokProvider),
      (lit ''xai'', GrokProvider),
      (lit ''cohere'', CohereProvider),
      (lit ''huggingface'', HuggingFaceProvider),
      (lit ''hf'', HuggingFaceProvider)]"

definition list_providers :: "pystr list" where
  "list_providers = map fst PROVIDERS"

text \<open>
  \<^verbatim>\<open>get_provider(provider_name, config)\<close>. \<open>lower\<close> is \<^verbatim>\<open>str.lower\<close>, and \<open>construct\<close> the
  call \<^verbatim>\<open>provider_class(config)\<close>, which validates the configuration and may raise.
\<close>

definition get_provider ::
  "(pystr \<Rightarrow> pystr) \<Rightarrow> (provider_class \<Rightarrow> ProviderConfig \<Rightarrow> 'f error + 'p)
     \<Rightarrow> pystr \<Rightarrow> ProviderConfig \<Rightarrow> 'f error + 'p" where
  "get_provider lower construct provider_name pconfig =
     (let provider_name = lower provider_name
      in case dict_get PROVIDERS provider_name of
           None \<Rightarrow>
             Inl (ConfigurationError
               (lit ''Provider '' @ [39] @ provider_name @ [39]
                  @ lit '' not supported. Available providers: ''
                  @ join (lit '', '') (map fst PROVIDERS)))
         | Some provider_class \<Rightarrow> construct provider_class pconfig)"

section \<open>JSON serialisation (json.dumps, as cache.py calls it)\<close>

text \<open>\<^verbatim>\<open>repr\<close> of a Python int: decimal digits, with a minus sign when negative.\<close>

fun digits :: "nat \<Rightarrow> pystr" where
  "digits n = (if n < 10 then [48 + n] else digits (n div 10) @ [48 + n mod 10])"

definition int_repr :: "int \<Rightarrow> pystr" where
  "int_repr i = (if i < 0 then 45 # digits (nat (- i)) else digits (nat i))"

text \<open>\<^verbatim>\<open>'{0:04x}'.format(n)\<close> for \<open>n < 0x10000\<close>: four lower-case hexadecimal digits.\<close>

definition hexdigit :: "nat \<Rightarrow> nat" where
  "hexdigit d = (if d < 10 then 48 + d else 87 + d)"

definition hex4 :: "nat \<Rightarrow> pystr" where
  "hex4 n = [hexdigit (n div 4096 mod 16), hexdigit (n div 256 mod 16),
             hexdigit (n div 16 mod 16), hexdigit (n mod 16)]"

text \<open>
  The escaping of one code point by \<^verbatim>\<open>json.dumps\<close> with its default \<^verbatim>\<open>ensure_ascii=True\<close>:
  the quote (34) and the backslash (92) get a backslash, five control characters their
  short escape, printable ASCII stands for itself, every other code point below 0x10000 is
  written \<^verbatim>\<open>\uXXXX\<close> (a lone surrogate too), and a code point from 0x10000 up is written as
  the two \<^verbatim>\<open>\uXXXX\<close> of its UTF-16 surrogate pair \<^verbatim>\<open>0xd800 | (v >> 10)\<close>, \<^verbatim>\<open>0xdc00 | (v & 0x3ff)\<close>
  with \<^verbatim>\<open>v = c - 0x10000\<close>.
\<close>

definition escape_char :: "nat \<Rightarrow> pystr" where
  "escape_char c =
    (if c = 34 then [92, 34]
     else if c = 92 then [92, 92]
     else if c = 10 then [92, 110]
     else if c = 13 then [92, 114]
     else if c = 9 then [92, 116]
     else if c = 12 then [92, 102]
     else if c = 8 then [92, 98]
     else if 32 \<le> c \<and> c \<le> 126 then [c]
     else if c < 65536 then [92, 117] @ hex4 c
     else [92, 117] @ hex4 (55296 + (c - 65536) div 1024 mod 1024)
        @ [92, 117] @ hex4 (56320 + (c - 65536) mod 1024))"

definition encode_basestring_ascii :: "pystr \<Rightarrow> pystr" where
  "encode_basestring_ascii s = [34] @ concat (map escape_char s) @ [34]"

text \<open>
  \<^verbatim>\<open>json.dumps(value, sort_keys=...)\<close> with the default separators. \<open>float_repr\<close> is the
  text of a float (\<^verbatim>\<open>float.__repr__\<close>, or \<^verbatim>\<open>NaN\<close>, \<^verbatim>\<open>Infinity\<close>, \<^verbatim>\<open>-Infinity\<close>). Keys are
  strings, sorted by code points.
\<close>

fun json_dumps :: "bool \<Rightarrow> ('f \<Rightarrow> pystr) \<Rightarrow> 'f json \<Rightarrow> pystr" where
  "json_dumps sort_keys float_repr JNull = lit ''null''"
| "json_dumps sort_keys float_repr (JBool b) = (if b then lit ''true'' else lit ''false'')"
| "json_dumps sort_keys float_repr (JInt i) = int_repr i"
| "json_dumps sort_keys float_repr (JFloat x) = float_repr x"
| "json_dumps sort_keys float_repr (JStr s) = encode_basestring_ascii s"
| "json_dumps sort_keys float_repr (JArr xs) =
     lit ''['' @ join (lit '', '') (map (json_dumps sort_keys float_repr) xs) @ lit '']''"
| "json_dumps sort_keys float_repr (JObj kvs) =
     lit ''{'' @ join (lit '', '')
       (map (\<lambda>(k, text). encode_basestring_ascii k @ lit '': '' @ text)
          ((if sort_keys then sort_key fst else (\<lambda>items. items))
             (map (\<lambda>(k, v). (k, json_dumps sort_keys float_repr v)) kvs)))
     @ lit ''}''"

section \<open>Well-formed text, and reading an escaped character back\<close>

text \<open>
  A Python string may hold surrogate code points (0xD800 to 0xDFFF) on their own; text
  that is valid Unicode holds none. \<open>unicode_text\<close> is a string of Unicode scalar values.
\<close>

definition is_surrogate :: "nat \<Rightarrow> bool" where
  "is_surrogate c \<longleftrightarrow> 55296 \<le> c \<and> c \<le> 57343"

definition scalar_value :: "nat \<Rightarrow> bool" where
  "scalar_value c \<longleftrightarrow> c < 1114112 \<and> \<not> is_surrogate c"

definition unicode_text :: "pystr \<Rightarrow> bool" where
  "unicode_text s = list_all scalar_value s"

text \<open>
  The inverse of the escaping, on the first character of an escaped string: the value of
  a hexadecimal digit, of four of them, and the code point that the escape at the head of
  a string stands for, with the rest of the string.
\<close>

definition unhex :: "nat \<Rightarrow> nat" where
  "unhex d = (if d \<le> 57 then d - 48 else d - 87)"

definition unhex4 :: "pystr \<Rightarrow> nat" where
  "unhex4 s = unhex (s ! 0) * 4096 + unhex (s ! 1) * 256 + unhex (s ! 2) * 16 + unhex (s ! 3)"

definition unescape_head :: "pystr \<Rightarrow> nat \<times> pystr" where
  "unescape_head s =
     (if hd s \<noteq> 92 then (hd s, tl s)
      else let e = s ! 1 in
        if e = 34 then (34, drop 2 s)
        else if e = 92 then (92, drop 2 s)
        else if e = 110 then (10, drop 2 s)
        else if e = 114 then (13, drop 2 s)
        else if e = 116 then (9, drop 2 s)
        else if e = 102 then (12, drop 2 s)
        else if e = 98 then (8, drop 2 s)
        else let n = unhex4 (take 4 (drop 2 s)) in
          if 55296 \<le> n \<and> n < 56320
          then (65536 + (n - 55296) * 1024 + (unhex4 (take 4 (drop 8 s)) - 56320), drop 12 s)
          else (n, drop 6 s))"

text \<open>The inputs of a cache key whose strings are all Unicode text.\<close>

definition unicode_inputs :: "Message list \<Rightarrow> 'f GenerationConfig \<Rightarrow> pystr \<Rightarrow> bool" where
  "unicode_inputs messages gconfig name \<longleftrightarrow>
     list_all (\<lambda>msg. unicode_text (Message.content msg)) messages
     \<and> (case GenerationConfig.model gconfig of None \<Rightarrow> True | Some m \<Rightarrow> unicode_text m)
     \<and> unicode_text name"

text \<open>The serialised text of one message of the cache data, keys in sorted order.\<close>

definition message_text :: "Message \<Rightarrow> pystr" where
  "message_text msg =
     lit ''{'' @ encode_basestring_ascii (lit ''content'') @ lit '': ''
       @ encode_basestring_ascii (Message.content msg) @ lit '', ''
       @ encode_basestring_ascii (lit ''role'') @ lit '': ''
       @ encode_basestring_ascii (role_str (role msg)) @ lit ''}''"

section \<open>Cache manager (cache.py)\<close>

text \<open>\<^verbatim>\<open>None\<close> or a value, as a JSON value.\<close>

definition optional :: "('a \<Rightarrow> 'f json) \<Rightarrow> 'a option \<Rightarrow> 'f json" where
  "optional f x = (case x of None \<Rightarrow> JNull | Some v \<Rightarrow> f v)"

text \<open>
  \<^verbatim>\<open>get_cache_key\<close>. \<open>sha256_hexdigest\<close> is
  \<^verbatim>\<open>hashlib.sha256(cache_string.encode()).hexdigest()\<close>; the serialised text is ASCII, so
  encoding it changes nothing.
\<close>

definition cache_data :: "Message list \<Rightarrow> 'f GenerationConfig \<Rightarrow> pystr \<Rightarrow> 'f json" where
  "cache_data messages config provider_name =
     JObj [(lit ''messages'',
              JArr (map (\<lambda>msg. JObj [(lit ''role'', JStr (role_str (role msg))),
                                       (lit ''content'', JStr (Message.content msg))]) messages)),
           (lit ''model'', optional JStr (GenerationConfig.model config)),
           (lit ''max_tokens'', optional JInt (max_tokens config)),
           (lit ''temperature'', optional JFloat (temperature config)),
           (lit ''top_p'', optional JFloat (top_p config)),
           (lit ''provider'', JStr provider_name)]"

definition get_cache_key ::
  "(pystr \<Rightarrow> pystr) \<Rightarrow> ('f \<Rightarrow> pystr) \<Rightarrow> CacheConfig
     \<Rightarrow> Message list \<Rightarrow> 'f GenerationConfig \<Rightarrow> pystr \<Rightarrow> pystr" where
  "get_cache_key sha256_hexdigest float_repr cconfig messages config provider_name =
     (let cache_string = json_dumps True float_repr (cache_data messages config provider_name);
          cache_hash = sha256_hexdigest cache_string
      in key_prefix cconfig @ cache_hash)"

text \<open>
  Response objects live in a heap and are held by reference: the in-memory cache and the
  caller of \<^verbatim>\<open>generate\<close> can hold the same object.
\<close>

type_synonym ref = nat

record heap =
  objects :: "ref \<rightharpoonup> Response"
  next_ref :: ref

definition new_object :: "heap \<Rightarrow> Response \<Rightarrow> ref \<times> heap" where
  "new_object h r = (next_ref h, \<lparr> objects = (objects h)(next_ref h \<mapsto> r),
                                     next_ref = Suc (next_ref h) \<rparr>)"

text \<open>\<^verbatim>\<open>obj.cached = value\<close>.\<close>

definition set_cached :: "heap \<Rightarrow> ref \<Rightarrow> bool \<Rightarrow> heap" where
  "set_cached h a v =
     (case objects h a of
        Some r \<Rightarrow> h\<lparr> objects := (objects h)(a \<mapsto> r\<lparr> cached := v \<rparr>) \<rparr>
      | None \<Rightarrow> h)"

text \<open>
  The external store: a map from keys to pickled Responses, which are copies by value. An
  unreachable store raises on every command. Expiry after the TTL is not modelled.
\<close>

record redis =
  reachable :: bool
  entries :: "pystr \<rightharpoonup> Response"

record CacheManager =
  config :: CacheConfig
  memory_cache :: "pystr \<rightharpoonup> ref"
  redis_client :: "redis option"

text \<open>\<^verbatim>\<open>CacheManager(config)\<close>; \<open>connect\<close> is \<^verbatim>\<open>redis.from_url\<close> followed by \<^verbatim>\<open>ping()\<close>, giving the
  client or the message of the CacheError.\<close>

definition CacheManager_init ::
  "(pystr \<Rightarrow> pystr + redis) \<Rightarrow> CacheConfig \<Rightarrow> 'f error + CacheManager" where
  "CacheManager_init connect cconfig =
     (case redis_url cconfig of
        Some url \<Rightarrow>
          if url \<noteq> [] \<and> enabled cconfig
          then (case connect url of
                  Inl message \<Rightarrow> Inl (CacheError message)
                | Inr client \<Rightarrow>
                    Inr \<lparr> config = cconfig, memory_cache = Map.empty, redis_client = Some client \<rparr>)
          else Inr \<lparr> config = cconfig, memory_cache = Map.empty, redis_client = None \<rparr>
      | None \<Rightarrow> Inr \<lparr> config = cconfig, memory_cache = Map.empty, redis_client = None \<rparr>)"

text \<open>\<^verbatim>\<open>get(key)\<close>: a hit in the external store unpickles into a new object.\<close>

definition cache_get :: "CacheManager \<Rightarrow> heap \<Rightarrow> pystr \<Rightarrow> ref option \<times> heap" where
  "cache_get self h key =
     (if \<not> enabled (config self) then (None, h)
      else case redis_client self of
             Some client \<Rightarrow>
               if \<not> reachable client then (None, h)
               else (case entries client key of
                       Some cached_data \<Rightarrow>
                         (case new_object h cached_data of (a, h') \<Rightarrow> (Some a, h'))
                     | None \<Rightarrow> (memory_cache self key, h))
           | None \<Rightarrow> (memory_cache self key, h))"

text \<open>\<^verbatim>\<open>set(key, response)\<close>: \<^verbatim>\<open>setex\<close> comes first, so an unreachable store also keeps the
  entry out of the memory cache.\<close>

definition cache_set :: "CacheManager \<Rightarrow> heap \<Rightarrow> pystr \<Rightarrow> ref \<Rightarrow> CacheManager" where
  "cache_set self h key response =
     (if \<not> enabled (config self) then self
      else case redis_client self of
             Some client \<Rightarrow>
               if \<not> reachable client then self
               else (case objects h response of
                       Some r \<Rightarrow>
                         self\<lparr> redis_client := Some (client\<lparr> entries := (entries client)(key \<mapsto> r) \<rparr>),
                               memory_cache := (memory_cache self)(key \<mapsto> response) \<rparr>
                     | None \<Rightarrow> self)
           | None \<Rightarrow> self\<lparr> memory_cache := (memory_cache self)(key \<mapsto> response) \<rparr>)"

text \<open>\<^verbatim>\<open>clear()\<close>: in the external store, the keys that begin with the prefix.\<close>

definition cache_clear :: "CacheManager \<Rightarrow> CacheManager" where
  "cache_clear self =
     (if \<not> enabled (config self) then self
      else case redis_client self of
             Some client \<Rightarrow>
               if \<not> reachable client then self
               else self\<lparr> redis_client := Some (client\<lparr> entries :=
                             (\<lambda>k. if prefix (key_prefix (config self)) k then None
                                  else entries client k) \<rparr>),
                           memory_cache := Map.empty \<rparr>
           | None \<Rightarrow> self\<lparr> memory_cache := Map.empty \<rparr>)"

section \<open>Dispatcher (core.py)\<close>

text \<open>
  A provider instance, as the dispatcher uses it: its configuration, its default model and
  its two entry points. The asynchronous entry points run the same code and are not
  modelled apart.
\<close>

record 'f BaseProvider =
  config :: ProviderConfig
  default_model :: pystr
  provider_generate ::
    "Message list \<Rightarrow> 'f GenerationConfig \<Rightarrow> (pystr \<times> 'f json) list \<Rightarrow> 'f error + Response"
  provider_generate_stream ::
    "Message list \<Rightarrow> 'f GenerationConfig \<Rightarrow> (pystr \<times> 'f json) list \<Rightarrow> 'f stream_run"

text \<open>What the code reaches outside itself.\<close>

record 'f environment =
  str_lower :: "pystr \<Rightarrow> pystr"
  construct :: "provider_class \<Rightarrow> ProviderConfig \<Rightarrow> 'f error + 'f BaseProvider"
  sha256_hexdigest :: "pystr \<Rightarrow> pystr"
  float_repr :: "'f \<Rightarrow> pystr"

record 'f LLMGenerator =
  provider_name :: pystr
  fallback_providers :: "pystr list"
  cache :: CacheManager
  provider :: "'f BaseProvider"
  default_model :: pystr

text \<open>A message as the caller passes it: a Message, a dict of strings, or something else,
  given by the text of its type.\<close>

datatype raw_message = AsMessage Message | AsDict "(pystr \<times> pystr) list" | AsOther pystr

definition parse_role :: "pystr \<Rightarrow> role option" where
  "parse_role r =
     (if r = lit ''system'' then Some System
      else if r = lit ''user'' then Some User
      else if r = lit ''assistant'' then Some Assistant
      else None)"

text \<open>\<^verbatim>\<open>Message(**msg)\<close>: pydantic refuses a missing field and a role outside the three.\<close>

definition message_from_dict :: "(pystr \<times> pystr) list \<Rightarrow> 'f error + Message" where
  "message_from_dict d =
     (case (dict_get d (lit ''role''), dict_get d (lit ''content'')) of
        (Some r, Some c) \<Rightarrow>
          (case parse_role r of
             Some ro \<Rightarrow> Inr \<lparr> role = ro, Message.content = c \<rparr>
           | None \<Rightarrow> Inl (PythonError (lit ''pydantic.ValidationError'')))
      | _ \<Rightarrow> Inl (PythonError (lit ''pydantic.ValidationError'')))"

fun normalize_messages :: "raw_message list \<Rightarrow> 'f error + Message list" where
  "normalize_messages [] = Inr []"
| "normalize_messages (msg # msgs) =
     (case (case msg of
              AsDict d \<Rightarrow> message_from_dict d
            | AsMessage m \<Rightarrow> Inr m
            | AsOther type_text \<Rightarrow>
                Inl (ValidationError (lit ''Invalid message type: '' @ type_text))) of
        Inl e \<Rightarrow> Inl e
      | Inr m \<Rightarrow>
          (case normalize_messages msgs of
             Inl e \<Rightarrow> Inl e
           | Inr normalized \<Rightarrow> Inr (m # normalized)))"

text \<open>
  \<^verbatim>\<open>_generate_stream\<close> is a generator function: calling it runs none of its body and cannot
  raise; what the provider's stream does shows only when the caller consumes it.
\<close>

definition generate_stream ::
  "'f LLMGenerator \<Rightarrow> Message list \<Rightarrow> 'f GenerationConfig \<Rightarrow> (pystr \<times> 'f json) list
     \<Rightarrow> 'f stream_run" where
  "generate_stream self messages gconfig kwargs =
     provider_generate_stream (provider self) messages gconfig kwargs"

text \<open>
  \<^verbatim>\<open>_try_fallback\<close>. \<open>handling\<close> is the exception being handled where the function is
  called: the bare \<^verbatim>\<open>raise\<close> after the loop raises that one again (each fallback's own
  exception stops being the current one when its \<^verbatim>\<open>except\<close> block is left), and is a
  RuntimeError when there is none.
\<close>

fun try_fallback ::
  "'f environment \<Rightarrow> 'f error option \<Rightarrow> ProviderConfig \<Rightarrow> pystr list
     \<Rightarrow> Message list \<Rightarrow> 'f GenerationConfig \<Rightarrow> (pystr \<times> 'f json) list
     \<Rightarrow> 'f error + Response" where
  "try_fallback env handling pconfig [] messages gconfig kwargs =
     (case handling of
        Some e \<Rightarrow> Inl e
      | None \<Rightarrow> Inl (PythonError (lit ''RuntimeError'')))"
| "try_fallback env handling pconfig (fallback_provider # rest) messages gconfig kwargs =
     (case get_provider (str_lower env) (construct env) fallback_provider pconfig of
        Inl e \<Rightarrow> try_fallback env handling pconfig rest messages gconfig kwargs
      | Inr fallback \<Rightarrow>
          (case provider_generate fallback messages gconfig kwargs of
             Inr response \<Rightarrow> Inr response
           | Inl e \<Rightarrow> try_fallback env handling pconfig rest messages gconfig kwargs))"

text \<open>\<^verbatim>\<open>LLMGenerator(provider, model, api_key, ..., cache_config, fallback_providers)\<close>.\<close>

definition LLMGenerator_init ::
  "'f environment \<Rightarrow> (pystr \<Rightarrow> pystr + redis) \<Rightarrow> pystr \<Rightarrow> pystr option \<Rightarrow> pystr option
     \<Rightarrow> pystr option \<Rightarrow> pystr option \<Rightarrow> int \<Rightarrow> int \<Rightarrow> CacheConfig option
     \<Rightarrow> pystr list option \<Rightarrow> 'f error + 'f LLMGenerator" where
  "LLMGenerator_init env connect provider_arg mdl key base org timeout_arg retries cache_config
      fallbacks =
     (let provider_config = \<lparr> api_key = key, api_base = base, organization = org,
                               timeout = timeout_arg, max_retries = retries \<rparr>
      in case CacheManager_init connect
                (case cache_config of Some c \<Rightarrow> c | None \<Rightarrow> CacheConfig_default) of
           Inl e \<Rightarrow> Inl e
         | Inr cache_manager \<Rightarrow>
             (case get_provider (str_lower env) (construct env) provider_arg provider_config of
                Inl e \<Rightarrow> Inl e
              | Inr p \<Rightarrow>
                  Inr \<lparr> provider_name = provider_arg,
                        fallback_providers = (case fallbacks of Some fs \<Rightarrow> fs | None \<Rightarrow> []),
                        cache = cache_manager,
                        provider = p,
                        LLMGenerator.default_model = str_or mdl (BaseProvider.default_model p) \<rparr>))"

text \<open>The \<^verbatim>\<open>GenerationConfig(model=model or self.default_model, ...)\<close> that \<^verbatim>\<open>generate\<close>
  builds from its arguments.\<close>

definition generation_config ::
  "'f LLMGenerator \<Rightarrow> pystr option \<Rightarrow> int option \<Rightarrow> 'f option \<Rightarrow> 'f option \<Rightarrow> bool \<Rightarrow> bool
     \<Rightarrow> 'f GenerationConfig" where
  "generation_config self mdl max_toks temp topp strm use_c =
     \<lparr> GenerationConfig.model = Some (str_or mdl (LLMGenerator.default_model self)),
       max_tokens = max_toks, temperature = temp, top_p = topp,
       stream = strm, use_cache = use_c \<rparr>"

text \<open>What \<^verbatim>\<open>generate\<close> returns: a Response object, or a generator.\<close>

datatype 'f generate_result = AResponse ref | AGenerator "'f stream_run"

text \<open>
  \<^verbatim>\<open>LLMGenerator.generate\<close>, with the dispatcher and the heap before and after. A Response
  that a provider returns is a new object.
\<close>

definition generate ::
  "'f environment \<Rightarrow> 'f LLMGenerator \<Rightarrow> heap \<Rightarrow> raw_message list \<Rightarrow> pystr option
     \<Rightarrow> int option \<Rightarrow> 'f option \<Rightarrow> 'f option \<Rightarrow> bool \<Rightarrow> bool \<Rightarrow> (pystr \<times> 'f json) list
     \<Rightarrow> ('f error + 'f generate_result) \<times> 'f LLMGenerator \<times> heap" where
  "generate env self h messages mdl max_toks temp topp strm use_c kwargs =
     (case normalize_messages messages of
        Inl e \<Rightarrow> (Inl e, self, h)
      | Inr normalized_messages \<Rightarrow>
          (let config = generation_config self mdl max_toks temp topp strm use_c;
               cache_key = get_cache_key (sha256_hexdigest env) (float_repr env)
                             (CacheManager.config (cache self)) normalized_messages config
                             (provider_name self)
           in case (if use_c \<and> \<not> strm then cache_get (cache self) h cache_key else (None, h)) of
                (Some cached_response, h1) \<Rightarrow>
                  (Inr (AResponse cached_response), self, set_cached h1 cached_response True)
              | (None, h1) \<Rightarrow>
                  if strm
                  then (Inr (AGenerator (generate_stream self normalized_messages config kwargs)),
                        self, h1)
                  else (case provider_generate (provider self) normalized_messages config kwargs of
                          Inr r \<Rightarrow>
                            (case new_object h1 r of
                               (response, h2) \<Rightarrow>
                                 (Inr (AResponse response),
                                  self\<lparr> cache := (if use_c
                                                   then cache_set (cache self) h2 cache_key response
                                                   else cache self) \<rparr>,
                                  h2))
                        | Inl e \<Rightarrow>
                            if fallback_providers self \<noteq> []
                            then (case try_fallback env (Some e)
                                         (BaseProvider.config (provider self))
                                         (fallback_providers self)
                                         normalized_messages config kwargs of
                                    Inr r \<Rightarrow>
                                      (case new_object h1 r of
                                         (response, h2) \<Rightarrow> (Inr (AResponse response), self, h2))
                                  | Inl e' \<Rightarrow> (Inl e', self, h1))
                            else (Inl e, self, h1))))"

section \<open>Test doubles (tests/conftest.py, tests/test_core.py)\<close>

text \<open>
  The objects the closed statements below run on. \<open>mock_response\<close> and \<open>sample_messages\<close>
  are the fixtures of conftest.py; a mock provider answers every call with the same
  result, as the patched \<^verbatim>\<open>generate\<close> of test_core.py does; the mock environment lowers
  nothing, writes every float as \<^verbatim>\<open>0.0\<close> and takes the serialised text itself as its
  digest.
\<close>

definition mock_response :: Response where
  "mock_response = \<lparr> choices = [\<lparr> Choice.content = lit ''Hello, world!'',
                                    finish_reason = Some (lit ''stop'') \<rparr>],
                       usage = Some \<lparr> prompt_tokens = 10, completion_tokens = 5, total_tokens = 15 \<rparr>,
                       Response.provider = lit ''test'', Response.model = lit ''test-model'',
                       cached = False \<rparr>"

definition sample_messages :: "raw_message list" where
  "sample_messages = [AsDict [(lit ''role'', lit ''user''), (lit ''content'', lit ''Hello!'')]]"

definition mock_provider ::
  "pystr \<Rightarrow> ProviderConfig \<Rightarrow> 'f error + Response \<Rightarrow> 'f stream_run \<Rightarrow> 'f BaseProvider" where
  "mock_provider dm pconfig result run =
     \<lparr> BaseProvider.config = pconfig, BaseProvider.default_model = dm,
       provider_generate = (\<lambda>messages gconfig kwargs. result),
       provider_generate_stream = (\<lambda>messages gconfig kwargs. run) \<rparr>"

text \<open>A digest without collisions, the text itself, and a one-to-one text for two floats.\<close>

definition identity_digest :: "pystr \<Rightarrow> pystr" where
  "identity_digest cache_string = cache_string"

definition two_floats :: "bool \<Rightarrow> pystr" where
  "two_floats x = (if x then lit ''0.7'' else lit ''0.2'')"

definition mock_environment ::
  "(provider_class \<Rightarrow> ProviderConfig \<Rightarrow> unit error + unit BaseProvider) \<Rightarrow> unit environment" where
  "mock_environment ctor =
     \<lparr> str_lower = (\<lambda>s. s), construct = ctor, sha256_hexdigest = identity_digest,
       float_repr = (\<lambda>x. lit ''0.0'') \<rparr>"

definition empty_heap :: heap where
  "empty_heap = \<lparr> objects = Map.empty, next_ref = 0 \<rparr>"

text \<open>\<^verbatim>\<open>llm(provider="openai", fallback_providers=...)\<close> with its provider replaced by a mock.\<close>

definition test_generator :: "pystr list \<Rightarrow> unit BaseProvider \<Rightarrow> unit LLMGenerator" where
  "test_generator fallbacks p =
     \<lparr> provider_name = lit ''openai'', fallback_providers = fallbacks,
       cache = \<lparr> CacheManager.config = CacheConfig_default, memory_cache = Map.empty,
                 redis_client = None \<rparr>,
       provider = p, LLMGenerator.default_model = BaseProvider.default_model p \<rparr>"

text \<open>A registry where no class can be constructed, and one where the Claude class gives
  a mock.\<close>

definition no_providers :: "provider_class \<Rightarrow> ProviderConfig \<Rightarrow> unit error + unit BaseProvider" where
  "no_providers c pconfig =
     Inl (AuthenticationError (lit ''API key not found.'') (lit ''Provider''))"

definition only_claude ::
  "unit BaseProvider \<Rightarrow> provider_class \<Rightarrow> ProviderConfig \<Rightarrow> unit error + unit BaseProvider" where
  "only_claude p c pconfig =
     (case c of
        ClaudeProvider \<Rightarrow> Inr p
      | _ \<Rightarrow> Inl (AuthenticationError (lit ''API key not found.'') (lit ''Provider'')))"

text \<open>A provider that answers with \<open>mock_response\<close>, and two calls of \<^verbatim>\<open>generate\<close> in a row
  on the same messages; \<open>sample_key\<close> is the cache key of both.\<close>

definition caching_provider :: "unit BaseProvider" where
  "caching_provider = mock_provider (lit ''gpt-3.5-turbo'') ProviderConfig_default
                        (Inr mock_response) \<lparr> emitted = [], raised = None \<rparr>"

definition first_call ::
  "(unit error + unit generate_result) \<times> unit LLMGenerator \<times> heap" where
  "first_call = generate (mock_environment no_providers) (test_generator [] caching_provider)
       empty_heap sample_messages None None None None False True []"

definition second_call ::
  "(unit error + unit generate_result) \<times> unit LLMGenerator \<times> heap" where
  "second_call = generate (mock_environment no_providers) (fst (snd first_call))
       (snd (snd first_call)) sample_messages None None None None False True []"

definition sample_key :: pystr where
  "sample_key = get_cache_key identity_digest (\<lambda>x::unit. lit ''0.0'') CacheConfig_default
      [\<lparr>role = User, Message.content = lit ''Hello!''\<rparr>]
      \<lparr> GenerationConfig.model = Some (lit ''gpt-3.5-turbo''), max_tokens = None,
        temperature = None, top_p = None, stream = False, use_cache = True \<rparr>
      (lit ''openai'')"

text \<open>A primary provider whose every call raises AuthenticationError, blocking or
  streaming, and a fallback whose every call raises RateLimitError.\<close>

definition unauthorized :: "unit error" where
  "unauthorized = AuthenticationError (lit ''Invalid API key'') (lit ''openai'')"

definition rate_limited :: "unit error" where
  "rate_limited = RateLimitError (lit ''Rate limit exceeded'') (lit ''claude'')"

definition failing_primary :: "unit BaseProvider" where
  "failing_primary = mock_provider (lit ''gpt-3.5-turbo'') ProviderConfig_default
                       (Inl unauthorized) \<lparr> emitted = [], raised = Some unauthorized \<rparr>"

definition failing_fallback :: "unit BaseProvider" where
  "failing_fallback = mock_provider (lit ''claude-3-haiku-20240307'') ProviderConfig_default
                        (Inl rate_limited) \<lparr> emitted = [], raised = Some rate_limited \<rparr>"


section \<open>Literals\<close>

lemma lit_eq_iff [simp]: "lit a = lit b \<longleftrightarrow> a = b"
  unfolding lit_def by (rule inj_map_eq_map) (simp add: inj_on_def)

lemma lit_Nil_iff [simp]: "lit a = [] \<longleftrightarrow> a = []" "[] = lit a \<longleftrightarrow> a = []"
  by (auto simp: lit_def)

section \<open>The escaping of a string can be read back\<close>

lemma unhex_hexdigit: "d < 16 \<Longrightarrow> unhex (hexdigit d) = d"
  by (simp add: unhex_def hexdigit_def)

lemma hex_digits_sum:
  "n < 65536 \<Longrightarrow>
   n div 4096 mod 16 * 4096 + n div 256 mod 16 * 256 + n div 16 mod 16 * 16 + n mod 16 = (n::nat)"
proof -
  assume lt: "n < 65536"
  have d2: "n div 256 = n div 16 div 16"
    using div_mult2_eq[of n 16 16] by simp
  have d3: "n div 4096 = n div 256 div 16"
    using div_mult2_eq[of n 256 16] by simp
  have s1: "n = (n div 16) * 16 + n mod 16" by simp
  have s2: "n div 16 = (n div 256) * 16 + n div 16 mod 16"
    unfolding d2 by simp
  have s3: "n div 256 = (n div 4096) * 16 + n div 256 mod 16"
    unfolding d3 by simp
  have s4: "n div 4096 mod 16 = n div 4096" using lt by simp
  show ?thesis using s1 s2 s3 s4 by linarith
qed

lemma unhex4_hex4: "n < 65536 \<Longrightarrow> unhex4 (hex4 n) = n"
  using hex_digits_sum[of n] by (simp add: unhex4_def hex4_def unhex_hexdigit)

lemma length_hex4 [simp]: "length (hex4 n) = 4"
  by (simp add: hex4_def)

lemma unescape_head_escape_char:
  assumes "scalar_value c"
  shows "unescape_head (escape_char c @ rest) = (c, rest)"
proof -
  consider "c = 34" | "c = 92" | "c = 10" | "c = 13" | "c = 9" | "c = 12" | "c = 8"
    | "32 \<le> c" "c \<le> 126" "c \<noteq> 34" "c \<noteq> 92"
    | "c < 32" "c \<noteq> 10" "c \<noteq> 13" "c \<noteq> 9" "c \<noteq> 12" "c \<noteq> 8"
    | "126 < c" "c < 65536"
    | "65536 \<le> c"
    by linarith
  then show ?thesis
  proof cases
    case 8
    then show ?thesis by (simp add: escape_char_def unescape_head_def)
  next
    case 9
    then have "unhex4 (hex4 c) = c"
      using unhex4_hex4[of c] by simp
    with 9 show ?thesis
      by (simp add: escape_char_def unescape_head_def Let_def)
  next
    case 10
    then have u: "unhex4 (hex4 c) = c"
      using unhex4_hex4[of c] by simp
    from 10 assms have "\<not> (55296 \<le> c \<and> c < 56320)"
      by (auto simp: scalar_value_def is_surrogate_def)
    with 10 u show ?thesis
      by (simp add: escape_char_def unescape_head_def Let_def)
  next
    case 11
    define v where "v = c - 65536"
    from 11 assms have v: "v < 1048576" "c = 65536 + v"
      by (auto simp: scalar_value_def v_def)
    have hi: "v div 1024 mod 1024 = v div 1024" using v by simp
    have hilt: "55296 + v div 1024 < 65536" using v by simp
    have lolt: "56320 + v mod 1024 < 65536" by simp
    have u1: "unhex4 (hex4 (55296 + v div 1024)) = 55296 + v div 1024"
      using unhex4_hex4[OF hilt] by simp
    have u2: "unhex4 (hex4 (56320 + v mod 1024)) = 56320 + v mod 1024"
      using unhex4_hex4[OF lolt] by simp
    have rng: "55296 \<le> 55296 + v div 1024 \<and> 55296 + v div 1024 < 56320" using v by simp
    show ?thesis
      using 11 v(2) rng
      by (simp add: escape_char_def unescape_head_def Let_def v_def[symmetric] hi u1 u2)
  qed (simp_all add: escape_char_def unescape_head_def)
qed

lemma escape_char_not_quote: "escape_char c \<noteq> [] \<and> hd (escape_char c) \<noteq> 34"
  by (simp add: escape_char_def)

lemma escaped_text_unique:
  "unicode_text s \<Longrightarrow> unicode_text t \<Longrightarrow>
   concat (map escape_char s) @ 34 # r1 = concat (map escape_char t) @ 34 # r2 \<Longrightarrow>
   s = t \<and> r1 = r2"
proof (induction s arbitrary: t)
  case Nil
  show ?case
  proof (cases t)
    case Nil
    with Nil.prems show ?thesis by simp
  next
    case (Cons d t')
    with Nil.prems have "34 # r1 = escape_char d @ (concat (map escape_char t') @ 34 # r2)"
      by simp
    then have "hd (escape_char d) = 34"
      using escape_char_not_quote[of d] by (metis hd_append2 list.sel(1))
    with escape_char_not_quote[of d] show ?thesis by simp
  qed
next
  case (Cons c s')
  show ?case
  proof (cases t)
    case Nil
    with Cons.prems have "34 # r2 = escape_char c @ (concat (map escape_char s') @ 34 # r1)"
      by simp
    then have "hd (escape_char c) = 34"
      using escape_char_not_quote[of c] by (metis hd_append2 list.sel(1))
    with escape_char_not_quote[of c] show ?thesis by simp
  next
    case (Cons d t')
    from Cons.prems(1) have c: "scalar_value c" "unicode_text s'" by (simp_all add: unicode_text_def)
    from Cons.prems(2) Cons have d: "scalar_value d" "unicode_text t'" by (simp_all add: unicode_text_def)
    from Cons.prems(3) Cons have eq:
      "escape_char c @ (concat (map escape_char s') @ 34 # r1)
       = escape_char d @ (concat (map escape_char t') @ 34 # r2)" by simp
    then have "unescape_head (escape_char c @ (concat (map escape_char s') @ 34 # r1))
       = unescape_head (escape_char d @ (concat (map escape_char t') @ 34 # r2))" by simp
    then have cd: "c = d" and rest: "concat (map escape_char s') @ 34 # r1
       = concat (map escape_char t') @ 34 # r2"
      by (simp_all add: unescape_head_escape_char c(1) d(1))
    from Cons.IH[OF c(2) d(2) rest] cd Cons show ?thesis by simp
  qed
qed

lemma encode_basestring_ascii_unique:
  "unicode_text s \<Longrightarrow> unicode_text t \<Longrightarrow>
   encode_basestring_ascii s @ r1 = encode_basestring_ascii t @ r2 \<Longrightarrow> s = t \<and> r1 = r2"
  using escaped_text_unique[of s t r1 r2] by (simp add: encode_basestring_ascii_def)

section \<open>Cache keys\<close>

subsection \<open>The serialised text of the cache data\<close>

lemma sort_message_keys:
  "sort_key fst [(lit ''role'', a), (lit ''content'', b)]
   = [(lit ''content'', b), (lit ''role'', a)]"
  by (simp add: lit_def)

lemma sort_cache_data_keys:
  "sort_key fst [(lit ''messages'', a), (lit ''model'', b), (lit ''max_tokens'', c),
                 (lit ''temperature'', d), (lit ''top_p'', e), (lit ''provider'', f)]
   = [(lit ''max_tokens'', c), (lit ''messages'', a), (lit ''model'', b),
      (lit ''provider'', f), (lit ''temperature'', d), (lit ''top_p'', e)]"
  by (simp add: lit_def)

lemma json_dumps_message:
  "json_dumps True fr (JObj [(lit ''role'', JStr r), (lit ''content'', JStr c)])
   = lit ''{'' @ encode_basestring_ascii (lit ''content'') @ lit '': ''
       @ encode_basestring_ascii c @ lit '', ''
       @ encode_basestring_ascii (lit ''role'') @ lit '': ''
       @ encode_basestring_ascii r @ lit ''}''"
  by (simp only: json_dumps.simps list.map prod.case if_True sort_message_keys join.simps
      append_assoc)

lemma cache_string_eq:
  "json_dumps True fr (cache_data messages gconfig name) =
     lit ''{'' @ encode_basestring_ascii (lit ''max_tokens'') @ lit '': ''
       @ json_dumps True fr (optional JInt (max_tokens gconfig)) @ lit '', ''
       @ encode_basestring_ascii (lit ''messages'') @ lit '': ''
       @ lit ''['' @ join (lit '', '') (map message_text messages) @ lit '']'' @ lit '', ''
       @ encode_basestring_ascii (lit ''model'') @ lit '': ''
       @ json_dumps True fr (optional JStr (GenerationConfig.model gconfig)) @ lit '', ''
       @ encode_basestring_ascii (lit ''provider'') @ lit '': ''
       @ encode_basestring_ascii name @ lit '', ''
       @ encode_basestring_ascii (lit ''temperature'') @ lit '': ''
       @ json_dumps True fr (optional JFloat (temperature gconfig)) @ lit '', ''
       @ encode_basestring_ascii (lit ''top_p'') @ lit '': ''
       @ json_dumps True fr (optional JFloat (top_p gconfig)) @ lit ''}''"
proof -
  have m: "map (json_dumps True fr)
          (map (\<lambda>msg. JObj [(lit ''role'', JStr (role_str (role msg))),
                             (lit ''content'', JStr (Message.content msg))]) messages)
        = map message_text messages"
    by (simp add: json_dumps_message message_text_def del: json_dumps.simps)
  show ?thesis
    unfolding cache_data_def
    by (simp only: json_dumps.simps(6,7) list.map prod.case if_True sort_cache_data_keys
        join.simps append_assoc m json_dumps.simps(5))
qed


subsection \<open>Integers\<close>

declare digits.simps [simp del]

lemma digits_nonempty: "digits n \<noteq> []"
  by (subst digits.simps) simp

lemma digits_chars: "c \<in> set (digits n) \<Longrightarrow> 48 \<le> c \<and> c \<le> 57"
proof (induction n rule: digits.induct)
  case (1 n)
  show ?case
  proof (cases "n < 10")
    case True
    with 1(2) show ?thesis by (subst (asm) digits.simps) simp
  next
    case False
    with 1(2) have "c \<in> set (digits (n div 10)) \<or> c = 48 + n mod 10"
      by (subst (asm) digits.simps) auto
    with 1(1)[OF False] show ?thesis by auto
  qed
qed

lemma digits_inj: "digits n = digits m \<Longrightarrow> n = m"
proof (induction n arbitrary: m rule: digits.induct)
  case (1 n)
  show ?case
  proof (cases "n < 10")
    case True
    note n = this
    show ?thesis
    proof (cases "m < 10")
      case True
      with n 1(2) show ?thesis
        by (subst (asm) digits.simps, subst (asm) (2) digits.simps) simp
    next
      case False
      with n 1(2) have "[48 + n] = digits (m div 10) @ [48 + m mod 10]"
        by (subst (asm) digits.simps, subst (asm) (2) digits.simps) simp
      then have "digits (m div 10) = []" by simp
      with digits_nonempty show ?thesis by blast
    qed
  next
    case False
    note n = this
    show ?thesis
    proof (cases "m < 10")
      case True
      with n 1(2) have "digits (n div 10) @ [48 + n mod 10] = [48 + m]"
        by (subst (asm) digits.simps, subst (asm) (2) digits.simps) simp
      then have "digits (n div 10) = []" by simp
      with digits_nonempty show ?thesis by blast
    next
      case False
      with n 1(2) have "digits (n div 10) @ [48 + n mod 10] = digits (m div 10) @ [48 + m mod 10]"
        by (subst (asm) digits.simps, subst (asm) (2) digits.simps) simp
      then have a: "digits (n div 10) = digits (m div 10)" and b: "n mod 10 = m mod 10"
        by simp_all
      from 1(1)[OF n a] have "n div 10 = m div 10" .
      with b show ?thesis by (metis div_mult_mod_eq)
    qed
  qed
qed

lemma int_repr_chars: "c \<in> set (int_repr i) \<Longrightarrow> c = 45 \<or> (48 \<le> c \<and> c \<le> 57)"
  using digits_chars by (auto simp: int_repr_def split: if_splits)

lemma int_repr_nonempty: "int_repr i \<noteq> []"
  by (simp add: int_repr_def digits_nonempty)

lemma int_repr_inj: "int_repr i = int_repr j \<Longrightarrow> i = j"
proof -
  assume eq: "int_repr i = int_repr j"
  have no45: "digits n \<noteq> 45 # xs" for n xs
  proof
    assume "digits n = 45 # xs"
    then have "45 \<in> set (digits n)" by simp
    from digits_chars[OF this] show False by simp
  qed
  show ?thesis
  proof (cases "i < 0")
    case True
    note i = this
    show ?thesis
    proof (cases "j < 0")
      case True
      with i eq have "digits (nat (- i)) = digits (nat (- j))" by (simp add: int_repr_def)
      from digits_inj[OF this] i True show ?thesis by simp
    next
      case False
      with i eq have "digits (nat j) = 45 # digits (nat (- i))" by (simp add: int_repr_def)
      with no45 show ?thesis by blast
    qed
  next
    case False
    note i = this
    show ?thesis
    proof (cases "j < 0")
      case True
      with i eq have "digits (nat i) = 45 # digits (nat (- j))" by (simp add: int_repr_def)
      with no45 show ?thesis by blast
    next
      case False
      with i eq have "digits (nat i) = digits (nat j)" by (simp add: int_repr_def)
      from digits_inj[OF this] i False show ?thesis by simp
    qed
  qed
qed

lemma separator_split:
  "x \<notin> set a \<Longrightarrow> x \<notin> set b \<Longrightarrow> a @ x # r1 = b @ x # r2 \<Longrightarrow> a = b \<and> r1 = r2"
proof (induction a arbitrary: b)
  case Nil
  then show ?case by (cases b) auto
next
  case (Cons y a)
  then show ?case by (cases b) auto
qed

lemma comma_split:
  "44 \<notin> set a \<Longrightarrow> 44 \<notin> set b \<Longrightarrow> a @ 44 # r1 = b @ 44 # r2 \<Longrightarrow> a = b \<and> r1 = (r2 :: pystr)"
  by (rule separator_split)

lemma lit_null: "lit ''null'' = [110, 117, 108, 108]"
  by (simp add: lit_def)

lemma optional_int_unique:
  assumes "json_dumps True fr (optional JInt x) @ 44 # r1
         = json_dumps True fr (optional JInt y) @ 44 # r2"
  shows "x = y \<and> r1 = r2"
proof -
  have nc: "44 \<notin> set (json_dumps True fr (optional JInt z))" for z
    by (cases z) (auto simp: optional_def lit_null dest: int_repr_chars)
  from comma_split[OF nc nc assms]
  have eq: "json_dumps True fr (optional JInt x) = json_dumps True fr (optional JInt y)"
    and r: "r1 = r2" by simp_all
  have nn: "int_repr i \<noteq> lit ''null''" for i
  proof
    assume "int_repr i = lit ''null''"
    then have "110 \<in> set (int_repr i)" by (simp add: lit_null)
    from int_repr_chars[OF this] show False by simp
  qed
  from eq have "x = y"
    using nn int_repr_inj
    by (cases x; cases y) (auto simp: optional_def simp del: lit_eq_iff)
  with r show ?thesis by simp
qed


subsection \<open>Optional strings and floats\<close>

lemma lit_simps:
  "lit '', '' = [44, 32]" "lit '']'' = [93]" "lit ''}'' = [125]" "lit ''['' = [91]"
  "lit ''{'' = [123]"
  by (simp_all add: lit_def)

lemma encode_starts_with_quote: "encode_basestring_ascii s = 34 # tl (encode_basestring_ascii s)"
  by (simp add: encode_basestring_ascii_def)

lemma optional_str_unique:
  assumes "case x of None \<Rightarrow> True | Some s \<Rightarrow> unicode_text s"
    and "case y of None \<Rightarrow> True | Some s \<Rightarrow> unicode_text s"
    and "json_dumps True fr (optional JStr x) @ r1 = json_dumps True fr (optional JStr y) @ r2"
  shows "x = y \<and> r1 = r2"
proof (cases x)
  case None
  note x = this
  show ?thesis
  proof (cases y)
    case None
    with x assms(3) show ?thesis by (simp add: optional_def)
  next
    case (Some t)
    with x assms(3) have "lit ''null'' @ r1 = encode_basestring_ascii t @ r2"
      by (simp add: optional_def)
    then have False
      by (subst (asm) encode_starts_with_quote) (simp add: lit_null)
    then show ?thesis ..
  qed
next
  case (Some s')
  note x = this
  show ?thesis
  proof (cases y)
    case None
    with x assms(3) have "encode_basestring_ascii s' @ r1 = lit ''null'' @ r2"
      by (simp add: optional_def)
    then have False
      by (subst (asm) encode_starts_with_quote) (simp add: lit_null)
    then show ?thesis ..
  next
    case (Some t)
    with x assms have "unicode_text s'" "unicode_text t"
      "encode_basestring_ascii s' @ r1 = encode_basestring_ascii t @ r2"
      by (simp_all add: optional_def)
    from encode_basestring_ascii_unique[OF this] x Some show ?thesis by simp
  qed
qed

lemma optional_float_inj:
  assumes "inj fr" and "\<And>v. fr v \<noteq> lit ''null''"
    and "json_dumps True fr (optional JFloat x) = json_dumps True fr (optional JFloat y)"
  shows "x = y"
  using assms(3) assms(2) injD[OF assms(1)]
  by (cases x; cases y) (auto simp: optional_def simp del: lit_eq_iff)

lemma optional_float_no_comma:
  "(\<And>v. 44 \<notin> set (fr v)) \<Longrightarrow> 44 \<notin> set (json_dumps True fr (optional JFloat x))"
  by (cases x) (simp_all add: optional_def lit_null)

subsection \<open>The list of messages\<close>

lemma role_str_inj: "role_str r = role_str r' \<Longrightarrow> r = r'"
  by (cases r; cases r') (simp_all add: role_str_def)

lemma unicode_text_lit_ascii:
  "list_all (\<lambda>c. of_char c < (128::nat)) s \<Longrightarrow> unicode_text (lit s)"
  by (induction s) (simp_all add: unicode_text_def lit_def scalar_value_def is_surrogate_def)

lemma unicode_text_role_str: "unicode_text (role_str r)"
  by (cases r) (simp_all add: role_str_def unicode_text_lit_ascii)

lemma message_text_unique:
  assumes "unicode_text (Message.content m)" and "unicode_text (Message.content m')"
    and "message_text m @ r1 = message_text m' @ r2"
  shows "m = m' \<and> r1 = r2"
proof -
  from assms(3) have
    "encode_basestring_ascii (Message.content m)
       @ (lit '', '' @ encode_basestring_ascii (lit ''role'') @ lit '': ''
          @ encode_basestring_ascii (role_str (role m)) @ lit ''}'' @ r1)
     = encode_basestring_ascii (Message.content m')
       @ (lit '', '' @ encode_basestring_ascii (lit ''role'') @ lit '': ''
          @ encode_basestring_ascii (role_str (role m')) @ lit ''}'' @ r2)"
    by (simp add: message_text_def)
  from encode_basestring_ascii_unique[OF assms(1,2) this]
  have c: "Message.content m = Message.content m'"
    and "encode_basestring_ascii (role_str (role m)) @ (lit ''}'' @ r1)
       = encode_basestring_ascii (role_str (role m')) @ (lit ''}'' @ r2)"
    by simp_all
  from encode_basestring_ascii_unique[OF unicode_text_role_str unicode_text_role_str this(2)]
  have "role_str (role m) = role_str (role m')" and r: "r1 = r2" by simp_all
  then have "role m = role m'" by (simp add: role_str_inj)
  with c r show ?thesis by simp
qed

lemma message_text_starts_with_brace: "message_text m = 123 # tl (message_text m)"
  by (simp add: message_text_def lit_simps)

lemma join_Cons: "join sep (x # xs) = x @ (if xs = [] then [] else sep @ join sep xs)"
  by (cases xs) simp_all

lemma messages_text_unique:
  assumes "list_all (\<lambda>msg. unicode_text (Message.content msg)) ms"
    and "list_all (\<lambda>msg. unicode_text (Message.content msg)) ms'"
    and "join (lit '', '') (map message_text ms) @ 93 # r1
       = join (lit '', '') (map message_text ms') @ 93 # r2"
  shows "ms = ms' \<and> r1 = r2"
  using assms
proof (induction ms arbitrary: ms')
  case Nil
  show ?case
  proof (cases ms')
    case Nil
    with Nil.prems show ?thesis by simp
  next
    case (Cons m' rest')
    with Nil.prems(3) have "93 # r1 = message_text m' @ (if rest' = [] then []
        else lit '', '' @ join (lit '', '') (map message_text rest')) @ 93 # r2"
      by (simp add: join_Cons)
    then have False
      by (subst (asm) message_text_starts_with_brace) simp
    then show ?thesis ..
  qed
next
  case (Cons m rest)
  show ?case
  proof (cases ms')
    case Nil
    with Cons.prems(3) have "message_text m @ (if rest = [] then []
        else lit '', '' @ join (lit '', '') (map message_text rest)) @ 93 # r1 = 93 # r2"
      by (simp add: join_Cons)
    then have False
      by (subst (asm) message_text_starts_with_brace) simp
    then show ?thesis ..
  next
    case (Cons m' rest')
    from Cons.prems(1) have v: "unicode_text (Message.content m)"
      "list_all (\<lambda>msg. unicode_text (Message.content msg)) rest" by simp_all
    from Cons.prems(2) Cons have v': "unicode_text (Message.content m')"
      "list_all (\<lambda>msg. unicode_text (Message.content msg)) rest'" by simp_all
    from Cons.prems(3) Cons have
      "message_text m @ ((if rest = [] then []
          else lit '', '' @ join (lit '', '') (map message_text rest)) @ 93 # r1)
       = message_text m' @ ((if rest' = [] then []
          else lit '', '' @ join (lit '', '') (map message_text rest')) @ 93 # r2)"
      by (simp add: join_Cons)
    from message_text_unique[OF v(1) v'(1) this]
    have mm: "m = m'" and tails:
      "(if rest = [] then [] else lit '', '' @ join (lit '', '') (map message_text rest)) @ 93 # r1
       = (if rest' = [] then []
          else lit '', '' @ join (lit '', '') (map message_text rest')) @ 93 # r2"
      by simp_all
    show ?thesis
    proof (cases "rest = []")
      case True
      note e = this
      show ?thesis
      proof (cases "rest' = []")
        case True
        with e tails mm Cons show ?thesis by simp
      next
        case False
        with e tails have False by (simp add: lit_simps)
        then show ?thesis ..
      qed
    next
      case False
      note ne = this
      show ?thesis
      proof (cases "rest' = []")
        case True
        with ne tails have False by (simp add: lit_simps)
        then show ?thesis ..
      next
        case False
        with ne tails have "join (lit '', '') (map message_text rest) @ 93 # r1
           = join (lit '', '') (map message_text rest') @ 93 # r2"
          by (simp add: lit_simps)
        from Cons.IH[OF v(2) v'(2) this] mm Cons show ?thesis by simp
      qed
    qed
  qed
qed


subsection \<open>The whole text\<close>

text \<open>
  The serialised cache data determines every field that went into it, when the strings
  are Unicode text and the text of a float is one-to-one, without a comma, and never
  \<^verbatim>\<open>null\<close>.
\<close>

lemma cache_string_unique:
  assumes fr: "inj fr" "\<And>v. 44 \<notin> set (fr v)" "\<And>v. fr v \<noteq> lit ''null''"
    and u: "unicode_inputs ms g n" "unicode_inputs ms' g' n'"
    and eq: "json_dumps True fr (cache_data ms g n) = json_dumps True fr (cache_data ms' g' n')"
  shows "ms = ms' \<and> GenerationConfig.model g = GenerationConfig.model g'
       \<and> max_tokens g = max_tokens g' \<and> temperature g = temperature g'
       \<and> top_p g = top_p g' \<and> n = n'"
proof -
  from u have um: "list_all (\<lambda>msg. unicode_text (Message.content msg)) ms"
      "list_all (\<lambda>msg. unicode_text (Message.content msg)) ms'"
    and uo: "case GenerationConfig.model g of None \<Rightarrow> True | Some m \<Rightarrow> unicode_text m"
      "case GenerationConfig.model g' of None \<Rightarrow> True | Some m \<Rightarrow> unicode_text m"
    and un: "unicode_text n" "unicode_text n'"
    by (simp_all add: unicode_inputs_def)
  from eq have e1:
    "json_dumps True fr (optional JInt (max_tokens g)) @ 44 # (32 #
       encode_basestring_ascii (lit ''messages'') @ lit '': '' @ lit ''[''
       @ join (lit '', '') (map message_text ms) @ 93 # (lit '', ''
       @ encode_basestring_ascii (lit ''model'') @ lit '': ''
       @ json_dumps True fr (optional JStr (GenerationConfig.model g)) @ (lit '', ''
       @ encode_basestring_ascii (lit ''provider'') @ lit '': ''
       @ encode_basestring_ascii n @ (lit '', ''
       @ encode_basestring_ascii (lit ''temperature'') @ lit '': ''
       @ json_dumps True fr (optional JFloat (temperature g)) @ 44 # (32 #
       encode_basestring_ascii (lit ''top_p'') @ lit '': ''
       @ json_dumps True fr (optional JFloat (top_p g)) @ lit ''}'')))))
   = json_dumps True fr (optional JInt (max_tokens g')) @ 44 # (32 #
       encode_basestring_ascii (lit ''messages'') @ lit '': '' @ lit ''[''
       @ join (lit '', '') (map message_text ms') @ 93 # (lit '', ''
       @ encode_basestring_ascii (lit ''model'') @ lit '': ''
       @ json_dumps True fr (optional JStr (GenerationConfig.model g')) @ (lit '', ''
       @ encode_basestring_ascii (lit ''provider'') @ lit '': ''
       @ encode_basestring_ascii n' @ (lit '', ''
       @ encode_basestring_ascii (lit ''temperature'') @ lit '': ''
       @ json_dumps True fr (optional JFloat (temperature g')) @ 44 # (32 #
       encode_basestring_ascii (lit ''top_p'') @ lit '': ''
       @ json_dumps True fr (optional JFloat (top_p g')) @ lit ''}'')))))"
    unfolding cache_string_eq by (simp add: lit_def)
  from optional_int_unique[OF e1]
  have mt: "max_tokens g = max_tokens g'" and e2:
    "join (lit '', '') (map message_text ms) @ 93 # (lit '', ''
       @ encode_basestring_ascii (lit ''model'') @ lit '': ''
       @ json_dumps True fr (optional JStr (GenerationConfig.model g)) @ (lit '', ''
       @ encode_basestring_ascii (lit ''provider'') @ lit '': ''
       @ encode_basestring_ascii n @ (lit '', ''
       @ encode_basestring_ascii (lit ''temperature'') @ lit '': ''
       @ json_dumps True fr (optional JFloat (temperature g)) @ 44 # (32 #
       encode_basestring_ascii (lit ''top_p'') @ lit '': ''
       @ json_dumps True fr (optional JFloat (top_p g)) @ lit ''}''))))
   = join (lit '', '') (map message_text ms') @ 93 # (lit '', ''
       @ encode_basestring_ascii (lit ''model'') @ lit '': ''
       @ json_dumps True fr (optional JStr (GenerationConfig.model g')) @ (lit '', ''
       @ encode_basestring_ascii (lit ''provider'') @ lit '': ''
       @ encode_basestring_ascii n' @ (lit '', ''
       @ encode_basestring_ascii (lit ''temperature'') @ lit '': ''
       @ json_dumps True fr (optional JFloat (temperature g')) @ 44 # (32 #
       encode_basestring_ascii (lit ''top_p'') @ lit '': ''
       @ json_dumps True fr (optional JFloat (top_p g')) @ lit ''}''))))"
    by simp_all
  from messages_text_unique[OF um e2]
  have msgs: "ms = ms'" and e3:
    "json_dumps True fr (optional JStr (GenerationConfig.model g)) @ (lit '', ''
       @ encode_basestring_ascii (lit ''provider'') @ lit '': ''
       @ encode_basestring_ascii n @ (lit '', ''
       @ encode_basestring_ascii (lit ''temperature'') @ lit '': ''
       @ json_dumps True fr (optional JFloat (temperature g)) @ 44 # (32 #
       encode_basestring_ascii (lit ''top_p'') @ lit '': ''
       @ json_dumps True fr (optional JFloat (top_p g)) @ lit ''}'')))
   = json_dumps True fr (optional JStr (GenerationConfig.model g')) @ (lit '', ''
       @ encode_basestring_ascii (lit ''provider'') @ lit '': ''
       @ encode_basestring_ascii n' @ (lit '', ''
       @ encode_basestring_ascii (lit ''temperature'') @ lit '': ''
       @ json_dumps True fr (optional JFloat (temperature g')) @ 44 # (32 #
       encode_basestring_ascii (lit ''top_p'') @ lit '': ''
       @ json_dumps True fr (optional JFloat (top_p g')) @ lit ''}'')))"
    by simp_all
  from optional_str_unique[OF uo e3]
  have mdl: "GenerationConfig.model g = GenerationConfig.model g'" and e4:
    "encode_basestring_ascii n @ (lit '', ''
       @ encode_basestring_ascii (lit ''temperature'') @ lit '': ''
       @ json_dumps True fr (optional JFloat (temperature g)) @ 44 # (32 #
       encode_basestring_ascii (lit ''top_p'') @ lit '': ''
       @ json_dumps True fr (optional JFloat (top_p g)) @ lit ''}''))
   = encode_basestring_ascii n' @ (lit '', ''
       @ encode_basestring_ascii (lit ''temperature'') @ lit '': ''
       @ json_dumps True fr (optional JFloat (temperature g')) @ 44 # (32 #
       encode_basestring_ascii (lit ''top_p'') @ lit '': ''
       @ json_dumps True fr (optional JFloat (top_p g')) @ lit ''}''))"
    by simp_all
  from encode_basestring_ascii_unique[OF un e4]
  have nm: "n = n'" and e5:
    "json_dumps True fr (optional JFloat (temperature g)) @ 44 # (32 #
       encode_basestring_ascii (lit ''top_p'') @ lit '': ''
       @ json_dumps True fr (optional JFloat (top_p g)) @ lit ''}'')
   = json_dumps True fr (optional JFloat (temperature g')) @ 44 # (32 #
       encode_basestring_ascii (lit ''top_p'') @ lit '': ''
       @ json_dumps True fr (optional JFloat (top_p g')) @ lit ''}'')"
    by simp_all
  from separator_split[OF optional_float_no_comma optional_float_no_comma e5, OF fr(2) fr(2)]
  have t: "json_dumps True fr (optional JFloat (temperature g))
         = json_dumps True fr (optional JFloat (temperature g'))"
    and e6: "json_dumps True fr (optional JFloat (top_p g))
         = json_dumps True fr (optional JFloat (top_p g'))"
    by simp_all
  from optional_float_inj[OF fr(1) fr(3) t] optional_float_inj[OF fr(1) fr(3) e6]
    mt msgs mdl nm
  show ?thesis by simp
qed


subsection \<open>Determinism and sensitivity of the key\<close>

text \<open>
  C1, as amended. \<^verbatim>\<open>get_cache_key\<close> is a function of its inputs, so two calls on the same
  inputs give the same key. With a digest without collisions and a one-to-one text for
  floats, and for inputs whose strings (message contents, model, provider name) are
  Unicode text, that is, hold no surrogate code point, two inputs get the same key only
  when they agree on the messages (their roles, contents and order), the model,
  \<^verbatim>\<open>max_tokens\<close>, \<^verbatim>\<open>temperature\<close>, \<^verbatim>\<open>top_p\<close> and the provider name: changing any one of them
  changes the key.
\<close>

theorem cache_key_determinism_and_sensitivity:
  assumes "inj digest" and "inj float_text"
    and "\<forall>v. 44 \<notin> set (float_text v)" and "\<forall>v. float_text v \<noteq> lit ''null''"
    and "unicode_inputs messages gconfig name" and "unicode_inputs messages' gconfig' name'"
  shows "get_cache_key digest float_text cconfig messages gconfig name
           = get_cache_key digest float_text cconfig messages' gconfig' name'
         \<longleftrightarrow> messages = messages'
             \<and> GenerationConfig.model gconfig = GenerationConfig.model gconfig'
             \<and> max_tokens gconfig = max_tokens gconfig'
             \<and> temperature gconfig = temperature gconfig'
             \<and> top_p gconfig = top_p gconfig'
             \<and> name = name'"
proof
  assume "get_cache_key digest float_text cconfig messages gconfig name
           = get_cache_key digest float_text cconfig messages' gconfig' name'"
  then have "digest (json_dumps True float_text (cache_data messages gconfig name))
           = digest (json_dumps True float_text (cache_data messages' gconfig' name'))"
    by (simp add: get_cache_key_def Let_def)
  with assms(1) have "json_dumps True float_text (cache_data messages gconfig name)
           = json_dumps True float_text (cache_data messages' gconfig' name')"
    by (simp add: inj_eq)
  with assms(2-6) show "messages = messages'
             \<and> GenerationConfig.model gconfig = GenerationConfig.model gconfig'
             \<and> max_tokens gconfig = max_tokens gconfig'
             \<and> temperature gconfig = temperature gconfig'
             \<and> top_p gconfig = top_p gconfig'
             \<and> name = name'"
    by (intro cache_string_unique) simp_all
next
  assume "messages = messages'
             \<and> GenerationConfig.model gconfig = GenerationConfig.model gconfig'
             \<and> max_tokens gconfig = max_tokens gconfig'
             \<and> temperature gconfig = temperature gconfig'
             \<and> top_p gconfig = top_p gconfig'
             \<and> name = name'"
  then show "get_cache_key digest float_text cconfig messages gconfig name
           = get_cache_key digest float_text cconfig messages' gconfig' name'"
    by (simp add: get_cache_key_def cache_data_def)
qed

lemma hello_unicode: "unicode_text (lit ''Hello!'')" "unicode_text (lit ''gpt-3.5-turbo'')"
  "unicode_text (lit ''openai'')"
  by (simp_all add: unicode_text_lit_ascii)

theorem cache_key_determinism_and_sensitivity_witness:
  "inj identity_digest \<and> inj two_floats
   \<and> (\<forall>v. 44 \<notin> set (two_floats v)) \<and> (\<forall>v. two_floats v \<noteq> lit ''null'')
   \<and> unicode_inputs [\<lparr>role = User, Message.content = lit ''Hello!''\<rparr>]
        \<lparr> GenerationConfig.model = Some (lit ''gpt-3.5-turbo''), max_tokens = None,
          temperature = Some True, top_p = None, stream = False, use_cache = True \<rparr>
        (lit ''openai'')
   \<and> unicode_inputs [\<lparr>role = User, Message.content = lit ''Hello!''\<rparr>]
        \<lparr> GenerationConfig.model = Some (lit ''gpt-3.5-turbo''), max_tokens = None,
          temperature = Some False, top_p = None, stream = False, use_cache = True \<rparr>
        (lit ''openai'')
   \<and> get_cache_key identity_digest two_floats CacheConfig_default
        [\<lparr>role = User, Message.content = lit ''Hello!''\<rparr>]
        \<lparr> GenerationConfig.model = Some (lit ''gpt-3.5-turbo''), max_tokens = None,
          temperature = Some True, top_p = None, stream = False, use_cache = True \<rparr>
        (lit ''openai'')
     \<noteq> get_cache_key identity_digest two_floats CacheConfig_default
        [\<lparr>role = User, Message.content = lit ''Hello!''\<rparr>]
        \<lparr> GenerationConfig.model = Some (lit ''gpt-3.5-turbo''), max_tokens = None,
          temperature = Some False, top_p = None, stream = False, use_cache = True \<rparr>
        (lit ''openai'')"
proof -
  have h1: "inj identity_digest" by (simp add: inj_def identity_digest_def)
  have h2: "inj two_floats" by (simp add: inj_def two_floats_def)
  have h3: "\<forall>v. 44 \<notin> set (two_floats v)" by (simp add: two_floats_def lit_def)
  have h4: "\<forall>v. two_floats v \<noteq> lit ''null''" by (simp add: two_floats_def)
  have h5: "unicode_inputs [\<lparr>role = User, Message.content = lit ''Hello!''\<rparr>]
        \<lparr> GenerationConfig.model = Some (lit ''gpt-3.5-turbo''), max_tokens = None,
          temperature = Some True, top_p = None, stream = False, use_cache = True \<rparr>
        (lit ''openai'')"
    by (simp add: unicode_inputs_def hello_unicode)
  have h6: "unicode_inputs [\<lparr>role = User, Message.content = lit ''Hello!''\<rparr>]
        \<lparr> GenerationConfig.model = Some (lit ''gpt-3.5-turbo''), max_tokens = None,
          temperature = Some False, top_p = None, stream = False, use_cache = True \<rparr>
        (lit ''openai'')"
    by (simp add: unicode_inputs_def hello_unicode)
  from cache_key_determinism_and_sensitivity[OF h1 h2 h3 h4 h5 h6, of CacheConfig_default]
  have "get_cache_key identity_digest two_floats CacheConfig_default
        [\<lparr>role = User, Message.content = lit ''Hello!''\<rparr>]
        \<lparr> GenerationConfig.model = Some (lit ''gpt-3.5-turbo''), max_tokens = None,
          temperature = Some True, top_p = None, stream = False, use_cache = True \<rparr>
        (lit ''openai'')
     \<noteq> get_cache_key identity_digest two_floats CacheConfig_default
        [\<lparr>role = User, Message.content = lit ''Hello!''\<rparr>]
        \<lparr> GenerationConfig.model = Some (lit ''gpt-3.5-turbo''), max_tokens = None,
          temperature = Some False, top_p = None, stream = False, use_cache = True \<rparr>
        (lit ''openai'')"
    by simp
  with h1 h2 h3 h4 h5 h6 show ?thesis by blast
qed

text \<open>
  C1 as stated fails on strings with surrogate code points: the content that is the one
  code point U+1F600 and the content that is the two code points U+D83D, U+DE00 are
  different strings, \<^verbatim>\<open>json.dumps\<close> writes both as the escape of U+D83D followed by the
  escape of U+DE00, and the two inputs get the same key even under a digest without
  collisions.
\<close>

theorem surrogate_pair_collision_counterexample:
  "get_cache_key identity_digest two_floats CacheConfig_default
        [\<lparr>role = User, Message.content = [128512]\<rparr>]
        \<lparr> GenerationConfig.model = Some (lit ''gpt-3.5-turbo''), max_tokens = None,
          temperature = None, top_p = None, stream = False, use_cache = True \<rparr>
        (lit ''openai'')
     = get_cache_key identity_digest two_floats CacheConfig_default
        [\<lparr>role = User, Message.content = [55357, 56832]\<rparr>]
        \<lparr> GenerationConfig.model = Some (lit ''gpt-3.5-turbo''), max_tokens = None,
          temperature = None, top_p = None, stream = False, use_cache = True \<rparr>
        (lit ''openai'')
   \<and> [\<lparr>role = User, Message.content = [128512]\<rparr>]
       \<noteq> [\<lparr>role = User, Message.content = [55357, 56832]\<rparr>]
   \<and> inj identity_digest"
  by (simp add: get_cache_key_def cache_string_eq message_text_def
      encode_basestring_ascii_def escape_char_def inj_def identity_digest_def)

section \<open>Error classification\<close>

lemma sublist_prepend: "sublist x ys \<Longrightarrow> sublist x (ps @ ys)"
  unfolding sublist_def by (metis append.assoc)

lemma sublist_join: "x \<in> set xs \<Longrightarrow> sublist x (join sep xs)"
proof (induction sep xs rule: join.induct)
  case (1 sep)
  then show ?case by simp
next
  case (2 sep y)
  then show ?case by simp
next
  case (3 sep y z zs)
  show ?case
  proof (cases "x = y")
    case True
    then show ?thesis by (simp add: sublist_append_rightI)
  next
    case False
    with 3 have "sublist x (join sep (z # zs))" by simp
    then have "sublist x ((y @ sep) @ join sep (z # zs))"
      by (rule sublist_prepend)
    then show ?thesis by simp
  qed
qed

lemma list_providers_eq:
  "list_providers = [lit ''openai'', lit ''azure'', lit ''claude'', lit ''anthropic'',
     lit ''grok'', lit ''xai'', lit ''cohere'', lit ''huggingface'', lit ''hf'']"
  by (simp add: list_providers_def PROVIDERS_def)

lemma default_models_supported:
  "str_or None openai_default_model \<in> set openai_supported_models"
  "str_or None claude_default_model \<in> set claude_supported_models"
  "str_or None cohere_default_model \<in> set cohere_supported_models"
  by (simp_all add: str_or_def openai_default_model_def openai_supported_models_def
      claude_default_model_def claude_supported_models_def
      cohere_default_model_def cohere_supported_models_def)

lemma retry_fst_all_fail:
  "fn 1 = Inl e1 \<Longrightarrow> fn 2 = Inl e2 \<Longrightarrow> fn 3 = Inl e3 \<Longrightarrow> fst (retry fn) = Inl e3"
  by (simp add: retry_def eval_nat_numeral)

text \<open>
  C8. In each of the four adapters an HTTP 401 response raises AuthenticationError and an
  HTTP 429 response raises RateLimitError, whatever the body of the response:
  \<^verbatim>\<open>_handle_http_error\<close> raises them for these two status codes; one run of the body of
  \<^verbatim>\<open>generate\<close> whose request is answered with the status raises them, through
  \<^verbatim>\<open>raise_for_status()\<close> and the \<^verbatim>\<open>except httpx.HTTPStatusError\<close> clause; and so does
  \<^verbatim>\<open>generate\<close> under its retry decorator, when every attempt is answered with the
  status, the bodies differing freely from one attempt to the next. For the three
  adapters that check the model, the model is a supported one (another model is refused
  before any request is made). The simulated stream of the HuggingFace adapter, when
  consumed, yields nothing and raises the same errors. \<^verbatim>\<open>get_provider\<close>, for a name whose
  lower-case form is not a key of the registry, raises ConfigurationError with a message
  that has every registered name, canonical or alias, as a substring. The statement holds
  for any \<open>lower\<close>, Python's own included.
\<close>

theorem error_classification:
  fixes error_body :: "'f json option"
    and parse :: "'f json \<Rightarrow> pystr \<Rightarrow> 'f error + Response"
    and ctor :: "provider_class \<Rightarrow> ProviderConfig \<Rightarrow> 'f error + 'p"
  shows
  "openai_handle_http_error 401 error_body str_error
          = AuthenticationError (lit ''Invalid API key'') (lit ''openai'')
   \<and> openai_handle_http_error 429 error_body str_error
          = RateLimitError (lit ''Rate limit exceeded'') (lit ''openai'')
   \<and> (str_or (GenerationConfig.model gconfig) openai_default_model
        \<in> set openai_supported_models \<longrightarrow>
        openai_generate_once parse
          (\<lambda>url payload. HTTPStatusError 401 (body url payload) (s url payload))
          messages gconfig kwargs
          = Inl (AuthenticationError (lit ''Invalid API key'') (lit ''openai''))
      \<and> fst (openai_generate parse
               (\<lambda>n url payload. HTTPStatusError 401 (bodies n url payload) (strs n url payload))
               messages gconfig kwargs)
          = Inl (AuthenticationError (lit ''Invalid API key'') (lit ''openai''))
      \<and> openai_generate_once parse
          (\<lambda>url payload. HTTPStatusError 429 (body url payload) (s url payload))
          messages gconfig kwargs
          = Inl (RateLimitError (lit ''Rate limit exceeded'') (lit ''openai''))
      \<and> fst (openai_generate parse
               (\<lambda>n url payload. HTTPStatusError 429 (bodies n url payload) (strs n url payload))
               messages gconfig kwargs)
          = Inl (RateLimitError (lit ''Rate limit exceeded'') (lit ''openai'')))
   \<and> claude_handle_http_error 401 error_body str_error
          = AuthenticationError (lit ''Invalid API key'') (lit ''claude'')
   \<and> claude_handle_http_error 429 error_body str_error
          = RateLimitError (lit ''Rate limit exceeded'') (lit ''claude'')
   \<and> (str_or (GenerationConfig.model gconfig) claude_default_model
        \<in> set claude_supported_models \<longrightarrow>
        claude_generate_once parse
          (\<lambda>url payload. HTTPStatusError 401 (body url payload) (s url payload))
          messages gconfig kwargs
          = Inl (AuthenticationError (lit ''Invalid API key'') (lit ''claude''))
      \<and> fst (claude_generate parse
               (\<lambda>n url payload. HTTPStatusError 401 (bodies n url payload) (strs n url payload))
               messages gconfig kwargs)
          = Inl (AuthenticationError (lit ''Invalid API key'') (lit ''claude''))
      \<and> claude_generate_once parse
          (\<lambda>url payload. HTTPStatusError 429 (body url payload) (s url payload))
          messages gconfig kwargs
          = Inl (RateLimitError (lit ''Rate limit exceeded'') (lit ''claude''))
      \<and> fst (claude_generate parse
               (\<lambda>n url payload. HTTPStatusError 429 (bodies n url payload) (strs n url payload))
               messages gconfig kwargs)
          = Inl (RateLimitError (lit ''Rate limit exceeded'') (lit ''claude'')))
   \<and> cohere_handle_http_error 401 error_body str_error
          = AuthenticationError (lit ''Invalid API key'') (lit ''cohere'')
   \<and> cohere_handle_http_error 429 error_body str_error
          = RateLimitError (lit ''Rate limit exceeded'') (lit ''cohere'')
   \<and> (str_or (GenerationConfig.model gconfig) cohere_default_model
        \<in> set cohere_supported_models \<longrightarrow>
        cohere_generate_once parse
          (\<lambda>url payload. HTTPStatusError 401 (body url payload) (s url payload))
          messages gconfig kwargs
          = Inl (AuthenticationError (lit ''Invalid API key'') (lit ''cohere''))
      \<and> fst (cohere_generate parse
               (\<lambda>n url payload. HTTPStatusError 401 (bodies n url payload) (strs n url payload))
               messages gconfig kwargs)
          = Inl (AuthenticationError (lit ''Invalid API key'') (lit ''cohere''))
      \<and> cohere_generate_once parse
          (\<lambda>url payload. HTTPStatusError 429 (body url payload) (s url payload))
          messages gconfig kwargs
          = Inl (RateLimitError (lit ''Rate limit exceeded'') (lit ''cohere''))
      \<and> fst (cohere_generate parse
               (\<lambda>n url payload. HTTPStatusError 429 (bodies n url payload) (strs n url payload))
               messages gconfig kwargs)
          = Inl (RateLimitError (lit ''Rate limit exceeded'') (lit ''cohere'')))
   \<and> hf_handle_http_error 401 error_body str_error
          = AuthenticationError (lit ''Invalid HuggingFace token'') (lit ''huggingface'')
   \<and> hf_handle_http_error 429 error_body str_error
          = RateLimitError (lit ''Rate limit exceeded'') (lit ''huggingface'')
   \<and> hf_generate_once py_str
          (\<lambda>url payload. HTTPStatusError 401 (body url payload) (s url payload))
          pconfig messages gconfig kwargs
          = Inl (AuthenticationError (lit ''Invalid HuggingFace token'') (lit ''huggingface''))
   \<and> fst (hf_generate py_str
               (\<lambda>n url payload. HTTPStatusError 401 (bodies n url payload) (strs n url payload))
               pconfig messages gconfig kwargs)
          = Inl (AuthenticationError (lit ''Invalid HuggingFace token'') (lit ''huggingface''))
   \<and> hf_generate_once py_str
          (\<lambda>url payload. HTTPStatusError 429 (body url payload) (s url payload))
          pconfig messages gconfig kwargs
          = Inl (RateLimitError (lit ''Rate limit exceeded'') (lit ''huggingface''))
   \<and> fst (hf_generate py_str
               (\<lambda>n url payload. HTTPStatusError 429 (bodies n url payload) (strs n url payload))
               pconfig messages gconfig kwargs)
          = Inl (RateLimitError (lit ''Rate limit exceeded'') (lit ''huggingface''))
   \<and> hf_generate_stream py_str
          (\<lambda>n url payload. HTTPStatusError 401 (bodies n url payload) (strs n url payload))
          pconfig messages gconfig kwargs
          = \<lparr> emitted = [],
              raised = Some (AuthenticationError (lit ''Invalid HuggingFace token'') (lit ''huggingface'')) \<rparr>
   \<and> hf_generate_stream py_str
          (\<lambda>n url payload. HTTPStatusError 429 (bodies n url payload) (strs n url payload))
          pconfig messages gconfig kwargs
          = \<lparr> emitted = [],
              raised = Some (RateLimitError (lit ''Rate limit exceeded'') (lit ''huggingface'')) \<rparr>
   \<and> (lower name \<notin> set list_providers \<longrightarrow>
        (\<exists>message. get_provider lower ctor name provider_config
                     = Inl (ConfigurationError message)
            \<and> (\<forall>key \<in> set list_providers. sublist key message)))"
proof -
  have reg: "lower name \<notin> set list_providers \<longrightarrow>
        (\<exists>message. get_provider lower ctor name provider_config
                     = Inl (ConfigurationError message)
            \<and> (\<forall>key \<in> set list_providers. sublist key message))"
  proof
    assume a: "lower name \<notin> set list_providers"
    then have none: "dict_get PROVIDERS (lower name) = None"
      by (simp add: dict_get_def list_providers_def map_of_eq_None_iff)
    let ?m = "lit ''Provider '' @ [39] @ lower name @ [39]
                  @ lit '' not supported. Available providers: ''
                  @ join (lit '', '') (map fst PROVIDERS)"
    have g: "get_provider lower ctor name provider_config = Inl (ConfigurationError ?m)"
      by (simp add: get_provider_def none Let_def)
    have "\<forall>key \<in> set list_providers. sublist key ?m"
    proof
      fix key assume "key \<in> set list_providers"
      then have "sublist key (join (lit '', '') (map fst PROVIDERS))"
        unfolding list_providers_def by (rule sublist_join)
      then show "sublist key ?m"
        by (intro sublist_prepend)
    qed
    with g show "\<exists>message. get_provider lower ctor name provider_config
                     = Inl (ConfigurationError message)
            \<and> (\<forall>key \<in> set list_providers. sublist key message)" by blast
  qed
  show ?thesis
    using reg
    by (simp add: openai_generate_def claude_generate_def cohere_generate_def hf_generate_def
        openai_generate_once_def claude_generate_once_def cohere_generate_once_def
        hf_generate_once_def hf_generate_stream_def validate_model_def post_and_parse_def
        retry_fst_all_fail Let_def
        openai_handle_http_error_def claude_handle_http_error_def
        cohere_handle_http_error_def hf_handle_http_error_def)
qed

theorem error_classification_witness:
  "str_or None openai_default_model \<in> set openai_supported_models
   \<and> str_or None claude_default_model \<in> set claude_supported_models
   \<and> str_or None cohere_default_model \<in> set cohere_supported_models
   \<and> lit ''invalid_provider'' \<notin> set list_providers
   \<and> fst (openai_generate (\<lambda>data mdl. Inl (PythonError []))
        (\<lambda>n url payload. HTTPStatusError 401 None (lit ''Unauthorized''))
        [\<lparr>role = User, Message.content = lit ''Hello!''\<rparr>]
        \<lparr>GenerationConfig.model = None, max_tokens = None, temperature = None, top_p = None,
          stream = False, use_cache = True\<rparr> [])
      = (Inl (AuthenticationError (lit ''Invalid API key'') (lit ''openai''))
          :: unit error + Response)
   \<and> claude_generate_once (\<lambda>data mdl. Inl (PythonError []))
        (\<lambda>url payload. HTTPStatusError 429 None (lit ''Unauthorized''))
        [\<lparr>role = User, Message.content = lit ''Hello!''\<rparr>]
        \<lparr>GenerationConfig.model = None, max_tokens = None, temperature = None, top_p = None,
          stream = False, use_cache = True\<rparr> []
      = (Inl (RateLimitError (lit ''Rate limit exceeded'') (lit ''claude''))
          :: unit error + Response)
   \<and> fst (cohere_generate (\<lambda>data mdl. Inl (PythonError []))
        (\<lambda>n url payload. HTTPStatusError 429 None (lit ''Unauthorized''))
        [\<lparr>role = User, Message.content = lit ''Hello!''\<rparr>]
        \<lparr>GenerationConfig.model = None, max_tokens = None, temperature = None, top_p = None,
          stream = False, use_cache = True\<rparr> [])
      = (Inl (RateLimitError (lit ''Rate limit exceeded'') (lit ''cohere''))
          :: unit error + Response)
   \<and> (\<exists>message. get_provider (\<lambda>x. x) (\<lambda>c p. Inr c)
          (lit ''invalid_provider'')
          \<lparr>api_key = None, api_base = None, organization = None, timeout = 30, max_retries = 3\<rparr>
        = (Inl (ConfigurationError message) :: unit error + provider_class)
      \<and> (\<forall>key \<in> set list_providers. sublist key message))"
proof -
  have h: "lit ''invalid_provider'' \<notin> set list_providers"
    by (simp add: list_providers_eq lit_def)
  show ?thesis
    using h default_models_supported error_classification
      [where gconfig = "\<lparr>GenerationConfig.model = None, max_tokens = None,
                          temperature = None, top_p = None, stream = False,
                          use_cache = True\<rparr>"
         and parse = "\<lambda>data mdl. Inl (PythonError []) :: unit error + Response"
         and body = "\<lambda>url payload. None" and s = "\<lambda>url payload. lit ''Unauthorized''"
         and bodies = "\<lambda>n url payload. None"
         and strs = "\<lambda>n url payload. lit ''Unauthorized''"
         and error_body = "None :: unit json option" and str_error = "lit ''Unauthorized''"
         and py_str = "\<lambda>data. []"
         and pconfig = "\<lparr>api_key = None, api_base = None, organization = None,
                          timeout = 30, max_retries = 3\<rparr>"
         and messages = "[\<lparr>role = User, Message.content = lit ''Hello!''\<rparr>]"
         and kwargs = "[]"
         and lower = "\<lambda>x. x" and name = "lit ''invalid_provider''"
         and ctor = "\<lambda>c p. Inr c :: unit error + provider_class"
         and provider_config = "\<lparr>api_key = None, api_base = None, organization = None,
                          timeout = 30, max_retries = 3\<rparr>"]
    by simp
qed

section \<open>The retry decorator retries every error\<close>

lemma retry_first_success: "fn 1 = Inr r \<Longrightarrow> retry fn = (Inr r, 1)"
  by (simp add: retry_def)


text \<open>The decorator in full: what the first attempt that returns gives, with its number,
  and else what the third attempt gives.\<close>

lemma retry_eq:
  "retry fn = (case fn 1 of
                 Inr r \<Rightarrow> (Inr r, 1)
               | Inl e1 \<Rightarrow> (case fn 2 of
                             Inr r \<Rightarrow> (Inr r, 2)
                           | Inl e2 \<Rightarrow> (fn 3, 3)))"
  by (simp add: retry_def eval_nat_numeral split: sum.splits)

text \<open>The ceiling: no call makes more than three attempts.\<close>

lemma retry_at_most_three: "snd (retry fn) \<le> 3 \<and> 1 \<le> snd (retry fn)"
proof -
  have "snd (retry_loop 3 fn 3) = 3"
    by (cases "fn 3") simp_all
  moreover have "snd (retry_loop 3 fn 2) = 2 \<or> snd (retry_loop 3 fn 2) = snd (retry_loop 3 fn 3)"
    by (cases "fn 2") (simp_all add: eval_nat_numeral)
  moreover have "snd (retry_loop 3 fn 1) = 1 \<or> snd (retry_loop 3 fn 1) = snd (retry_loop 3 fn 2)"
    by (cases "fn 1") (simp_all add: eval_nat_numeral)
  ultimately show ?thesis unfolding retry_def by auto
qed




section \<open>Message translation of the Claude adapter\<close>

lemma dict_get_dict_set:
  "dict_get (dict_set k v d) k' = (if k' = k then Some v else dict_get d k')"
  by (simp add: dict_get_def dict_set_def update_conv')

lemma dict_get_dict_update:
  "k \<notin> fst ` set other \<Longrightarrow> dict_get (dict_update other d) k = dict_get d k"
  unfolding dict_update_def
  by (induction other arbitrary: d) (auto simp: dict_get_dict_set)

lemma dict_get_set_if_not_none:
  "k' \<noteq> k \<Longrightarrow> dict_get (set_if_not_none k x d) k' = dict_get d k'"
  by (simp add: set_if_not_none_def dict_get_dict_set split: option.splits)

lemma dict_get_set_if_truthy:
  "k' \<noteq> k \<Longrightarrow> dict_get (set_if_truthy k x d) k' = dict_get d k'"
  by (simp add: set_if_truthy_def dict_get_dict_set split: option.splits)

text \<open>The loop keeps the content of the last system message it met, and every other
  message in order.\<close>

lemma claude_convert_eq:
  "claude_convert msgs sys acc =
     (if filter (\<lambda>m. role m = System) msgs = [] then sys
      else Some (Message.content (last (filter (\<lambda>m. role m = System) msgs))),
      acc @ prepare_messages (filter (\<lambda>m. role m \<noteq> System) msgs))"
  by (induction msgs arbitrary: sys acc) (simp_all add: prepare_messages_def)

text \<open>
  C9, as amended. The payload's \<^verbatim>\<open>messages\<close> list holds exactly the messages whose role is
  not \<^verbatim>\<open>system\<close>, as role/content pairs in their original order. Its top-level \<^verbatim>\<open>system\<close>
  field holds the content of the last system-role message of the list, wherever that
  message stands, and is absent when there is no system message or the last one's content
  is empty. (Extra keyword arguments named \<^verbatim>\<open>system\<close> or \<^verbatim>\<open>messages\<close> would overwrite the
  fields, so the statement is for calls without them.)
\<close>

theorem claude_payload_system_and_messages:
  assumes "lit ''system'' \<notin> fst ` set kwargs" and "lit ''messages'' \<notin> fst ` set kwargs"
  shows "dict_get (claude_payload mdl messages gconfig kwargs) (lit ''messages'')
           = Some (JArr (prepare_messages (filter (\<lambda>m. role m \<noteq> System) messages)))
       \<and> dict_get (claude_payload mdl messages gconfig kwargs) (lit ''system'')
           = (if filter (\<lambda>m. role m = System) messages = []
                 \<or> Message.content (last (filter (\<lambda>m. role m = System) messages)) = []
              then None
              else Some (JStr (Message.content (last (filter (\<lambda>m. role m = System) messages)))))"
proof -
  have ne: "lit ''messages'' \<noteq> lit ''top_p''" "lit ''messages'' \<noteq> lit ''temperature''"
    "lit ''messages'' \<noteq> lit ''system''" "lit ''system'' \<noteq> lit ''top_p''"
    "lit ''system'' \<noteq> lit ''temperature''" "lit ''messages'' \<noteq> lit ''model''"
    "lit ''system'' \<noteq> lit ''model''" "lit ''system'' \<noteq> lit ''messages''"
    "lit ''system'' \<noteq> lit ''max_tokens''" "lit ''messages'' \<noteq> lit ''max_tokens''"
    by (simp_all add: lit_def)
  show ?thesis
    using assms ne
    by (simp add: claude_payload_def claude_convert_eq dict_get_dict_update
        dict_get_set_if_not_none dict_get_dict_set)
      (simp add: dict_get_def)
qed

theorem claude_payload_system_and_messages_witness:
  "lit ''system'' \<notin> fst ` set ([] :: (pystr \<times> unit json) list)
   \<and> lit ''messages'' \<notin> fst ` set ([] :: (pystr \<times> unit json) list)
   \<and> dict_get (claude_payload (lit ''claude-3-haiku-20240307'')
        [\<lparr>role = System, Message.content = lit ''You are helpful''\<rparr>,
         \<lparr>role = User, Message.content = lit ''Hello!''\<rparr>]
        \<lparr>GenerationConfig.model = None, max_tokens = None, temperature = None, top_p = None,
          stream = False, use_cache = True\<rparr> ([] :: (pystr \<times> unit json) list))
        (lit ''messages'')
      = Some (JArr [JObj [(lit ''role'', JStr (lit ''user'')), (lit ''content'', JStr (lit ''Hello!''))]])
   \<and> dict_get (claude_payload (lit ''claude-3-haiku-20240307'')
        [\<lparr>role = System, Message.content = lit ''You are helpful''\<rparr>,
         \<lparr>role = User, Message.content = lit ''Hello!''\<rparr>]
        \<lparr>GenerationConfig.model = None, max_tokens = None, temperature = None, top_p = None,
          stream = False, use_cache = True\<rparr> ([] :: (pystr \<times> unit json) list))
        (lit ''system'')
      = Some (JStr (lit ''You are helpful''))"
  using claude_payload_system_and_messages
    [of "[] :: (pystr \<times> unit json) list" "lit ''claude-3-haiku-20240307''"
        "[\<lparr>role = System, Message.content = lit ''You are helpful''\<rparr>,
          \<lparr>role = User, Message.content = lit ''Hello!''\<rparr>]"
        "\<lparr>GenerationConfig.model = None, max_tokens = None, temperature = None, top_p = None,
          stream = False, use_cache = True\<rparr>"]
  by (simp add: prepare_messages_def role_str_def lit_def)

text \<open>
  C9 as stated fails twice. A system message that is not the leading one is still taken
  into the \<^verbatim>\<open>system\<close> field; and when a later system message follows, the leading one's
  content is in neither the \<^verbatim>\<open>system\<close> field nor the \<^verbatim>\<open>messages\<close> list.
\<close>

theorem claude_system_not_leading_counterexample:
  "dict_get (claude_payload (lit ''claude-3-haiku-20240307'')
        [\<lparr>role = User, Message.content = lit ''Hello!''\<rparr>,
         \<lparr>role = System, Message.content = lit ''You are helpful''\<rparr>]
        \<lparr>GenerationConfig.model = None, max_tokens = None, temperature = None, top_p = None,
          stream = False, use_cache = True\<rparr> ([] :: (pystr \<times> unit json) list))
        (lit ''system'')
      = Some (JStr (lit ''You are helpful''))
   \<and> dict_get (claude_payload (lit ''claude-3-haiku-20240307'')
        [\<lparr>role = System, Message.content = lit ''A''\<rparr>,
         \<lparr>role = User, Message.content = lit ''Hello!''\<rparr>,
         \<lparr>role = System, Message.content = lit ''B''\<rparr>]
        \<lparr>GenerationConfig.model = None, max_tokens = None, temperature = None, top_p = None,
          stream = False, use_cache = True\<rparr> ([] :: (pystr \<times> unit json) list))
        (lit ''system'')
      = Some (JStr (lit ''B''))
   \<and> dict_get (claude_payload (lit ''claude-3-haiku-20240307'')
        [\<lparr>role = System, Message.content = lit ''A''\<rparr>,
         \<lparr>role = User, Message.content = lit ''Hello!''\<rparr>,
         \<lparr>role = System, Message.content = lit ''B''\<rparr>]
        \<lparr>GenerationConfig.model = None, max_tokens = None, temperature = None, top_p = None,
          stream = False, use_cache = True\<rparr> ([] :: (pystr \<times> unit json) list))
        (lit ''messages'')
      = Some (JArr [JObj [(lit ''role'', JStr (lit ''user'')), (lit ''content'', JStr (lit ''Hello!''))]])"
  by (simp add: claude_payload_def dict_update_def set_if_not_none_def dict_set_def
      dict_get_def role_str_def lit_def)

section \<open>Cache round trip\<close>

text \<open>
  C4. With caching enabled and no external store, \<^verbatim>\<open>get\<close> after \<^verbatim>\<open>set\<close> on the same key gives
  back the very object that was stored and leaves the heap as it was, so the Response it
  returns equals the stored one in every field; a \<^verbatim>\<open>set\<close> on one key does not change what
  \<^verbatim>\<open>get\<close> gives on another, and \<^verbatim>\<open>get\<close> on a key the memory cache does not hold gives nothing,
  so a key that was never set gives nothing; after \<^verbatim>\<open>clear\<close>, \<^verbatim>\<open>get\<close> gives nothing, for a key
  set before as for any other.
\<close>

theorem cache_round_trip:
  assumes "enabled (CacheManager.config cm)" and "redis_client cm = None"
  shows "cache_get (cache_set cm h key response) h key = (Some response, h)
       \<and> (key' \<noteq> key \<longrightarrow>
            cache_get (cache_set cm h key response) h key' = cache_get cm h key')
       \<and> (memory_cache cm key = None \<longrightarrow> cache_get cm h key = (None, h))
       \<and> cache_get (cache_clear cm) h key = (None, h)
       \<and> cache_get (cache_clear (cache_set cm h key response)) h key = (None, h)"
  using assms by (simp add: cache_get_def cache_set_def cache_clear_def)

text \<open>The default cache is the memory cache alone, and the generator of the closed
  statements is the one the constructor builds around a mock provider.\<close>

lemma CacheManager_init_memory_only:
  "CacheManager_init connect CacheConfig_default
     = Inr \<lparr> CacheManager.config = CacheConfig_default, memory_cache = Map.empty,
             redis_client = None \<rparr>"
  by (simp add: CacheManager_init_def CacheConfig_default_def)

lemma test_generator_constructed:
  "LLMGenerator_init (mock_environment (\<lambda>c pconfig. Inr p)) connect (lit ''openai'')
     None None None None 30 3 None (Some fallbacks) = Inr (test_generator fallbacks p)"
  by (simp add: LLMGenerator_init_def CacheManager_init_memory_only get_provider_def
      mock_environment_def PROVIDERS_def dict_get_def test_generator_def str_or_def Let_def)

text \<open>The three tests of test_cache.py (set and get, miss, clear) on the default cache.\<close>

theorem cache_round_trip_witness:
  "enabled (CacheManager.config (cache (test_generator [] caching_provider)))
   \<and> redis_client (cache (test_generator [] caching_provider)) = None
   \<and> cache_get (cache_set (cache (test_generator [] caching_provider))
         \<lparr> objects = [0 \<mapsto> mock_response], next_ref = 1 \<rparr> (lit ''test-key'') 0)
         \<lparr> objects = [0 \<mapsto> mock_response], next_ref = 1 \<rparr> (lit ''test-key'')
       = (Some 0, \<lparr> objects = [0 \<mapsto> mock_response], next_ref = 1 \<rparr>)
   \<and> cache_get (cache (test_generator [] caching_provider))
         \<lparr> objects = [0 \<mapsto> mock_response], next_ref = 1 \<rparr> (lit ''test-key'')
       = (None, \<lparr> objects = [0 \<mapsto> mock_response], next_ref = 1 \<rparr>)
   \<and> cache_get (cache_clear (cache_set (cache (test_generator [] caching_provider))
         \<lparr> objects = [0 \<mapsto> mock_response], next_ref = 1 \<rparr> (lit ''test-key'') 0))
         \<lparr> objects = [0 \<mapsto> mock_response], next_ref = 1 \<rparr> (lit ''test-key'')
       = (None, \<lparr> objects = [0 \<mapsto> mock_response], next_ref = 1 \<rparr>)"
  using cache_round_trip
    [where cm = "cache (test_generator [] caching_provider)"
       and h = "\<lparr> objects = [0 \<mapsto> mock_response], next_ref = 1 \<rparr>"
       and key = "lit ''test-key''" and response = 0]
  by (simp add: test_generator_def CacheConfig_default_def)

section \<open>A cache hit marks the stored object\<close>

lemma sample_messages_normalized:
  "normalize_messages sample_messages = Inr [\<lparr>role = User, Message.content = lit ''Hello!''\<rparr>]"
  by (simp add: sample_messages_def message_from_dict_def dict_get_def parse_role_def)

text \<open>
  On a hit in the memory cache, \<^verbatim>\<open>generate\<close> sets \<^verbatim>\<open>cached = True\<close> on the object the cache
  holds and returns that object: the stored entry changes. On a hit in the external store
  the object returned is a copy, and the stored entry stays as it was.
\<close>

lemma generate_cache_hit_marks_stored:
  fixes env :: "'f environment"
  assumes "normalize_messages messages = (Inr normalized :: 'f error + Message list)"
    and "enabled (CacheManager.config (cache self))"
    and "redis_client (cache self) = None"
    and "memory_cache (cache self)
           (get_cache_key (sha256_hexdigest env) (float_repr env)
              (CacheManager.config (cache self)) normalized
              (generation_config self mdl max_toks temp topp False True) (provider_name self))
         = Some a"
    and "objects h a = Some r"
  shows "generate env self h messages mdl max_toks temp topp False True kwargs
     = (Inr (AResponse a), self, h\<lparr> objects := (objects h)(a \<mapsto> r\<lparr> cached := True \<rparr>) \<rparr>)"
  using assms by (simp add: generate_def Let_def cache_get_def set_cached_def)

lemma generate_cache_miss_stores:
  fixes env :: "'f environment"
  assumes "normalize_messages messages = (Inr normalized :: 'f error + Message list)"
    and "enabled (CacheManager.config (cache self))"
    and "redis_client (cache self) = None"
    and "memory_cache (cache self)
           (get_cache_key (sha256_hexdigest env) (float_repr env)
              (CacheManager.config (cache self)) normalized
              (generation_config self mdl max_toks temp topp False True) (provider_name self))
         = None"
    and "provider_generate (provider self) normalized
           (generation_config self mdl max_toks temp topp False True) kwargs = Inr r"
  shows "generate env self h messages mdl max_toks temp topp False True kwargs
     = (Inr (AResponse (next_ref h)),
        self\<lparr> cache := (cache self)\<lparr> memory_cache := (memory_cache (cache self))
           (get_cache_key (sha256_hexdigest env) (float_repr env)
              (CacheManager.config (cache self)) normalized
              (generation_config self mdl max_toks temp topp False True) (provider_name self)
            \<mapsto> next_ref h) \<rparr> \<rparr>,
        \<lparr> objects = (objects h)(next_ref h \<mapsto> r), next_ref = Suc (next_ref h) \<rparr>)"
  using assms by (simp add: generate_def Let_def cache_get_def cache_set_def new_object_def)

lemma generate_cache_hit_external_store:
  fixes env :: "'f environment"
  assumes "normalize_messages messages = (Inr normalized :: 'f error + Message list)"
    and "enabled (CacheManager.config (cache self))"
    and "redis_client (cache self) = Some client" and "reachable client"
    and "entries client
           (get_cache_key (sha256_hexdigest env) (float_repr env)
              (CacheManager.config (cache self)) normalized
              (generation_config self mdl max_toks temp topp False True) (provider_name self))
         = Some r"
  shows "generate env self h messages mdl max_toks temp topp False True kwargs
     = (Inr (AResponse (next_ref h)), self,
        \<lparr> objects = (objects h)(next_ref h \<mapsto> r\<lparr> cached := True \<rparr>),
          next_ref = Suc (next_ref h) \<rparr>)"
  using assms by (simp add: generate_def Let_def cache_get_def set_cached_def new_object_def)

lemma first_call_eq:
  "first_call = (Inr (AResponse 0),
      (test_generator [] caching_provider)\<lparr> cache :=
         \<lparr> CacheManager.config = CacheConfig_default,
           memory_cache = [sample_key \<mapsto> 0], redis_client = None \<rparr> \<rparr>,
      \<lparr> objects = [0 \<mapsto> mock_response], next_ref = 1 \<rparr>)"
  unfolding first_call_def
  by (subst generate_cache_miss_stores[OF sample_messages_normalized, where r = mock_response])
     (simp_all add: test_generator_def CacheConfig_default_def mock_environment_def
       caching_provider_def mock_provider_def empty_heap_def sample_key_def str_or_def
       generation_config_def)

lemma second_call_eq:
  "second_call = (Inr (AResponse 0),
      (test_generator [] caching_provider)\<lparr> cache :=
         \<lparr> CacheManager.config = CacheConfig_default,
           memory_cache = [sample_key \<mapsto> 0], redis_client = None \<rparr> \<rparr>,
      \<lparr> objects = [0 \<mapsto> mock_response\<lparr> cached := True \<rparr>], next_ref = 1 \<rparr>)"
  unfolding second_call_def first_call_eq
  by (simp, subst generate_cache_hit_marks_stored[OF sample_messages_normalized,
        where a = 0 and r = mock_response])
     (simp_all add: test_generator_def CacheConfig_default_def mock_environment_def
       caching_provider_def mock_provider_def sample_key_def str_or_def generation_config_def)

text \<open>
  C5 (a cache hit leaves the stored entry with \<^verbatim>\<open>cached = False\<close>). Two calls of
  \<^verbatim>\<open>generate\<close> with the same messages, on the default in-memory cache. The first call
  misses, stores the provider's Response (object 0, \<^verbatim>\<open>cached = False\<close>) and returns it. The
  second call hits and returns the same object 0 with \<^verbatim>\<open>cached = True\<close>: the entry the
  memory cache holds under the key is that object, so the stored Response now has
  \<^verbatim>\<open>cached = True\<close>, and so has the Response the first caller was given.
\<close>

theorem cache_hit_marks_the_stored_response:
  "fst first_call = Inr (AResponse 0)
   \<and> memory_cache (cache (fst (snd first_call))) sample_key = Some 0
   \<and> map_option cached (objects (snd (snd first_call)) 0) = Some False
   \<and> fst second_call = Inr (AResponse 0)
   \<and> memory_cache (cache (fst (snd second_call))) sample_key = Some 0
   \<and> map_option cached (objects (snd (snd second_call)) 0) = Some True"
  unfolding second_call_eq first_call_eq by (simp add: mock_response_def)

section \<open>Fallback exhaustion\<close>

lemma try_fallback_all_fail:
  "(\<forall>n \<in> set names.
      case get_provider (str_lower env) (construct env) n pconfig of
        Inl e \<Rightarrow> True
      | Inr fallback \<Rightarrow> isl (provider_generate fallback messages gconfig kwargs))
   \<Longrightarrow> try_fallback env handling pconfig names messages gconfig kwargs
       = (case handling of Some e \<Rightarrow> Inl e | None \<Rightarrow> Inl (PythonError (lit ''RuntimeError'')))"
proof (induction names)
  case Nil
  then show ?case by simp
next
  case (Cons n names)
  then show ?case
    by (auto split: sum.splits simp: isl_def)
qed

text \<open>
  C2, as amended. In a blocking \<^verbatim>\<open>generate\<close> call that does not hit the cache, when the
  primary provider raises and every configured fallback fails (it cannot be constructed,
  or its \<^verbatim>\<open>generate\<close> raises), the error that reaches the caller is the one the primary
  provider raised; the errors of the fallbacks are dropped.
\<close>

theorem fallback_exhaustion_reraises_primary_error:
  fixes env :: "'f environment"
  assumes norm: "normalize_messages messages = (Inr normalized :: 'f error + Message list)"
    and miss: "use_c \<longrightarrow> fst (cache_get (cache self) h
                 (get_cache_key (sha256_hexdigest env) (float_repr env)
                    (CacheManager.config (cache self)) normalized
                    (generation_config self mdl max_toks temp topp False use_c)
                    (provider_name self))) = None"
    and primary: "provider_generate (provider self) normalized
                    (generation_config self mdl max_toks temp topp False use_c) kwargs = Inl e"
    and fallbacks: "\<forall>n \<in> set (fallback_providers self).
      case get_provider (str_lower env) (construct env) n (BaseProvider.config (provider self)) of
        Inl e' \<Rightarrow> True
      | Inr fallback \<Rightarrow>
          isl (provider_generate fallback normalized
                 (generation_config self mdl max_toks temp topp False use_c) kwargs)"
  shows "fst (generate env self h messages mdl max_toks temp topp False use_c kwargs) = Inl e"
proof -
  have tf: "try_fallback env (Some e) (BaseProvider.config (provider self))
              (fallback_providers self) normalized
              (generation_config self mdl max_toks temp topp False use_c) kwargs = Inl e"
    using try_fallback_all_fail[OF fallbacks, of "Some e"] by simp
  show ?thesis
  proof (cases use_c)
    case True
    with miss obtain h1 where cg: "cache_get (cache self) h
                 (get_cache_key (sha256_hexdigest env) (float_repr env)
                    (CacheManager.config (cache self)) normalized
                    (generation_config self mdl max_toks temp topp False use_c)
                    (provider_name self)) = (None, h1)"
      by (metis fst_conv surj_pair)
    show ?thesis
      using True norm primary tf cg
      by (simp add: generate_def Let_def)
  next
    case False
    then show ?thesis
      using norm primary tf
      by (simp add: generate_def Let_def)
  qed
qed

lemma claude_registered: "dict_get PROVIDERS (lit ''claude'') = Some ClaudeProvider"
  by (simp add: PROVIDERS_def dict_get_def)

lemma get_claude:
  "get_provider (str_lower (mock_environment (only_claude p)))
     (construct (mock_environment (only_claude p))) (lit ''claude'') pconfig = Inr p"
  by (simp add: get_provider_def mock_environment_def claude_registered only_claude_def)

theorem fallback_exhaustion_reraises_primary_error_witness:
  "normalize_messages sample_messages
     = (Inr [\<lparr>role = User, Message.content = lit ''Hello!''\<rparr>] :: unit error + Message list)
   \<and> fst (cache_get (cache (test_generator [lit ''claude''] failing_primary)) empty_heap
        (get_cache_key identity_digest (\<lambda>x::unit. lit ''0.0'') CacheConfig_default
           [\<lparr>role = User, Message.content = lit ''Hello!''\<rparr>]
           (generation_config (test_generator [lit ''claude''] failing_primary)
              None None None None False True) (lit ''openai'')))
     = None
   \<and> provider_generate failing_primary [\<lparr>role = User, Message.content = lit ''Hello!''\<rparr>]
        (generation_config (test_generator [lit ''claude''] failing_primary)
           None None None None False True) []
     = Inl unauthorized
   \<and> map_sum id (\<lambda>fallback. provider_generate fallback
          [\<lparr>role = User, Message.content = lit ''Hello!''\<rparr>]
          (generation_config (test_generator [lit ''claude''] failing_primary)
             None None None None False True) [])
        (get_provider (\<lambda>s. s) (only_claude failing_fallback) (lit ''claude'')
           ProviderConfig_default)
     = Inr (Inl rate_limited)
   \<and> fst (generate (mock_environment (only_claude failing_fallback))
        (test_generator [lit ''claude''] failing_primary) empty_heap sample_messages
        None None None None False True [])
     = Inl unauthorized"
proof -
  have miss: "True \<longrightarrow> fst (cache_get (cache (test_generator [lit ''claude''] failing_primary))
        empty_heap
        (get_cache_key (sha256_hexdigest (mock_environment (only_claude failing_fallback)))
           (float_repr (mock_environment (only_claude failing_fallback)))
           (CacheManager.config (cache (test_generator [lit ''claude''] failing_primary)))
           [\<lparr>role = User, Message.content = lit ''Hello!''\<rparr>]
           (generation_config (test_generator [lit ''claude''] failing_primary)
              None None None None False True)
           (provider_name (test_generator [lit ''claude''] failing_primary))))
     = None"
    by (simp add: test_generator_def cache_get_def CacheConfig_default_def)
  have primary: "provider_generate (provider (test_generator [lit ''claude''] failing_primary))
        [\<lparr>role = User, Message.content = lit ''Hello!''\<rparr>]
        (generation_config (test_generator [lit ''claude''] failing_primary)
           None None None None False True) []
     = Inl unauthorized"
    by (simp add: test_generator_def failing_primary_def mock_provider_def)
  have fb: "\<forall>n \<in> set (fallback_providers (test_generator [lit ''claude''] failing_primary)).
      case get_provider (str_lower (mock_environment (only_claude failing_fallback)))
             (construct (mock_environment (only_claude failing_fallback))) n
             (BaseProvider.config (provider (test_generator [lit ''claude''] failing_primary))) of
        Inl e' \<Rightarrow> True
      | Inr fallback \<Rightarrow>
          isl (provider_generate fallback [\<lparr>role = User, Message.content = lit ''Hello!''\<rparr>]
                 (generation_config (test_generator [lit ''claude''] failing_primary)
                    None None None None False True) [])"
    by (simp add: test_generator_def get_claude failing_fallback_def mock_provider_def)
  have "fst (generate (mock_environment (only_claude failing_fallback))
        (test_generator [lit ''claude''] failing_primary) empty_heap sample_messages
        None None None None False True [])
     = Inl unauthorized"
    by (rule fallback_exhaustion_reraises_primary_error
          [OF sample_messages_normalized miss primary fb])
  then show ?thesis
    using get_claude[of failing_fallback ProviderConfig_default]
    by (simp add: sample_messages_normalized failing_primary_def failing_fallback_def
        mock_provider_def mock_environment_def test_generator_def cache_get_def
        CacheConfig_default_def)
qed

text \<open>
  C2 as stated fails: the primary raises AuthenticationError, the only fallback raises
  RateLimitError, and the caller gets the AuthenticationError, not the last error met.
\<close>

theorem last_fallback_error_is_dropped_counterexample:
  "fst (generate (mock_environment (only_claude failing_fallback))
        (test_generator [lit ''claude''] failing_primary) empty_heap sample_messages
        None None None None False True [])
     = Inl (AuthenticationError (lit ''Invalid API key'') (lit ''openai''))
   \<and> map_sum id (\<lambda>fallback. provider_generate fallback
          [\<lparr>role = User, Message.content = lit ''Hello!''\<rparr>]
          (generation_config (test_generator [lit ''claude''] failing_primary)
             None None None None False True) [])
        (get_provider (\<lambda>s. s) (only_claude failing_fallback) (lit ''claude'')
           ProviderConfig_default)
     = Inr (Inl (RateLimitError (lit ''Rate limit exceeded'') (lit ''claude'')))
   \<and> fst (generate (mock_environment (only_claude failing_fallback))
        (test_generator [lit ''claude''] failing_primary) empty_heap sample_messages
        None None None None False True [])
     \<noteq> Inl (RateLimitError (lit ''Rate limit exceeded'') (lit ''claude''))"
  using get_claude[of failing_fallback ProviderConfig_default]
  by (simp add: generate_def sample_messages_normalized Let_def test_generator_def
      cache_get_def CacheConfig_default_def failing_primary_def mock_provider_def
      get_claude failing_fallback_def unauthorized_def rate_limited_def mock_environment_def)

section \<open>Streaming calls\<close>




section \<open>The simulated stream of the HuggingFace adapter\<close>

declare hf_chunks.simps [simp del]

lemma hf_chunks_stop: "length s \<le> i \<Longrightarrow> hf_chunks i s = []"
  by (subst hf_chunks.simps) simp

lemma hf_chunks_last_step:
  "i < length s \<Longrightarrow> length s \<le> i + chunk_size \<Longrightarrow>
   hf_chunks i s = [\<lparr> StreamChunk.content = take chunk_size (drop i s),
                       finish_reason = Some (lit ''stop''), is_done = True \<rparr>]"
  by (subst hf_chunks.simps) (simp add: hf_chunks_stop)

lemma hf_chunks_step:
  "i + chunk_size < length s \<Longrightarrow>
   hf_chunks i s = \<lparr> StreamChunk.content = take chunk_size (drop i s),
                       finish_reason = None, is_done = False \<rparr> # hf_chunks (i + chunk_size) s"
  by (subst hf_chunks.simps) simp

text \<open>
  Where the loop runs at all, it marks exactly one chunk as the terminal one, the last.
\<close>

lemma hf_chunks_one_done:
  "i < length s \<Longrightarrow>
     length (filter is_done (hf_chunks i s)) = 1 \<and> is_done (last (hf_chunks i s))
     \<and> hf_chunks i s \<noteq> []"
proof (induction i s rule: hf_chunks.induct)
  case (1 i s)
  show ?case
  proof (cases "i + chunk_size \<ge> length s")
    case True
    with 1(2) show ?thesis by (simp add: hf_chunks_last_step)
  next
    case False
    then have lt: "i + chunk_size < length s" by simp
    from 1(1)[OF 1(2) lt] show ?thesis
      by (simp add: hf_chunks_step[OF lt])
  qed
qed

text \<open>The chunks, put together again, are the content from where the loop started.\<close>

lemma hf_chunks_concat: "concat (map StreamChunk.content (hf_chunks i s)) = drop i s"
proof (induction i s rule: hf_chunks.induct)
  case (1 i s)
  show ?case
  proof (cases "i < length s")
    case True
    note lt = this
    show ?thesis
    proof (cases "i + chunk_size \<ge> length s")
      case True
      with lt show ?thesis by (simp add: hf_chunks_last_step)
    next
      case False
      then have lt2: "i + chunk_size < length s" by simp
      have "take chunk_size (drop i s) @ drop (i + chunk_size) s = drop i s"
        by (metis add.commute append_take_drop_id drop_drop)
      with 1[OF lt] show ?thesis
        by (simp add: hf_chunks_step[OF lt2])
    qed
  next
    case False
    then show ?thesis by (simp add: hf_chunks_stop)
  qed
qed

lemma convert_hello:
  "convert_messages_to_hf [\<lparr>role = User, Message.content = lit ''Hello!''\<rparr>]
   = lit ''Human: Hello!'' @ [10] @ lit ''Assistant:''"
  by (simp add: convert_messages_to_hf_def hf_part_def lit_def Let_def)

text \<open>
  C6 (exactly one terminal chunk, the empty content included). The HuggingFace backend
  answers the transcript \<^verbatim>\<open>"Human: Hello!\nAssistant:"\<close> with that transcript and nothing
  after it, so the parsed content is the empty string. \<^verbatim>\<open>generate_stream\<close> then ends
  without an exception and without having yielded any chunk: the stream has no terminal
  chunk at all, where the claim asks for exactly one.
\<close>

theorem hf_generate_stream_empty_content_no_chunk:
  "hf_generate_stream (\<lambda>_::unit json. [])
     (\<lambda>n url payload. Success (Some (JArr [JObj [(lit ''generated_text'',
         JStr (lit ''Human: Hello!'' @ [10] @ lit ''Assistant:''))]])))
     \<lparr>api_key = None, api_base = None, organization = None, timeout = 30, max_retries = 3\<rparr>
     [\<lparr>role = User, Message.content = lit ''Hello!''\<rparr>]
     \<lparr>GenerationConfig.model = None, max_tokens = None, temperature = None, top_p = None,
       stream = True, use_cache = True\<rparr> []
   = \<lparr>emitted = [], raised = None\<rparr>"
  by (simp add: hf_generate_stream_def hf_generate_def retry_def hf_generate_once_def
      post_and_parse_def hf_parse_response_def hf_content_def dict_get_def convert_hello strip_def Let_def
      hf_chunks_stop)

section \<open>Prompt-echo stripping of the HuggingFace adapter\<close>

text \<open>
  C10, as amended. When the response body is a non-empty list whose first element is an
  object with a string \<^verbatim>\<open>generated_text\<close>, the single choice's content is the rest of that
  string after the transcript, stripped of surrounding whitespace, if the string begins
  with the transcript that was sent, and the string unchanged otherwise. When the body is
  itself an object with a string \<^verbatim>\<open>generated_text\<close>, the content is that string unchanged,
  whether or not it begins with the transcript.
\<close>

theorem hf_parse_response_echo_stripping:
  assumes "dict_get kvs (lit ''generated_text'') = Some (JStr g)"
  shows "(\<exists>r. hf_parse_response py_str (JArr (JObj kvs # rest)) mdl
                (convert_messages_to_hf messages) = Inr r
            \<and> map Choice.content (choices r) =
                [if prefix (convert_messages_to_hf messages) g
                 then strip (drop (length (convert_messages_to_hf messages)) g) else g])
       \<and> (\<exists>r. hf_parse_response py_str (JObj kvs) mdl
                (convert_messages_to_hf messages) = Inr r
            \<and> map Choice.content (choices r) = [g])"
  using assms by (simp add: hf_parse_response_def hf_content_def)

theorem hf_parse_response_echo_stripping_witness:
  "dict_get [(lit ''generated_text'', JStr (lit ''Human: Hello!'' @ [10] @ lit ''Assistant: Hi ''))]
      (lit ''generated_text'')
     = Some (JStr (lit ''Human: Hello!'' @ [10] @ lit ''Assistant: Hi ''))
   \<and> (\<exists>r. hf_parse_response (\<lambda>_::unit json. [])
          (JArr [JObj [(lit ''generated_text'',
             JStr (lit ''Human: Hello!'' @ [10] @ lit ''Assistant: Hi ''))]])
          (lit ''m'') (convert_messages_to_hf [\<lparr>role = User, Message.content = lit ''Hello!''\<rparr>])
          = Inr r
        \<and> map Choice.content (choices r) = [lit ''Hi''])
   \<and> (\<exists>r. hf_parse_response (\<lambda>_::unit json. [])
          (JObj [(lit ''generated_text'',
             JStr (lit ''Human: Hello!'' @ [10] @ lit ''Assistant: Hi ''))])
          (lit ''m'') (convert_messages_to_hf [\<lparr>role = User, Message.content = lit ''Hello!''\<rparr>])
          = Inr r
        \<and> map Choice.content (choices r)
            = [lit ''Human: Hello!'' @ [10] @ lit ''Assistant: Hi ''])"
  using hf_parse_response_echo_stripping
    [of "[(lit ''generated_text'', JStr (lit ''Human: Hello!'' @ [10] @ lit ''Assistant: Hi ''))]"
        "lit ''Human: Hello!'' @ [10] @ lit ''Assistant: Hi ''"
        "\<lambda>_::unit json. []" "[]" "lit ''m''"
        "[\<lparr>role = User, Message.content = lit ''Hello!''\<rparr>]"]
  unfolding convert_hello
  by (simp add: dict_get_def strip_def isspace_def lit_def)

text \<open>
  C10 as stated fails on an object-shaped body: its \<^verbatim>\<open>generated_text\<close> begins with the
  transcript that was sent, and the content is the whole string, not the remainder.
\<close>

theorem hf_dict_format_keeps_echo_counterexample:
  "prefix (convert_messages_to_hf [\<lparr>role = User, Message.content = lit ''Hello!''\<rparr>])
      (lit ''Human: Hello!'' @ [10] @ lit ''Assistant: Hi'')
   \<and> map_sum id (\<lambda>r. map Choice.content (choices r))
       (hf_parse_response (\<lambda>_::unit json. [])
          (JObj [(lit ''generated_text'', JStr (lit ''Human: Hello!'' @ [10] @ lit ''Assistant: Hi''))])
          (lit ''microsoft/DialoGPT-medium'')
          (convert_messages_to_hf [\<lparr>role = User, Message.content = lit ''Hello!''\<rparr>]))
       = Inr [lit ''Human: Hello!'' @ [10] @ lit ''Assistant: Hi'']
   \<and> lit ''Human: Hello!'' @ [10] @ lit ''Assistant: Hi''
       \<noteq> strip (drop (length (convert_messages_to_hf [\<lparr>role = User, Message.content = lit ''Hello!''\<rparr>]))
                  (lit ''Human: Hello!'' @ [10] @ lit ''Assistant: Hi''))"
  unfolding convert_hello
  by (simp add: hf_parse_response_def hf_content_def dict_get_def strip_def
      isspace_def lit_def)

end
